theory Spec2Isabelle
  imports Complex_Main "HOL-Library.Sublist"
begin

section \<open>Python values and failures\<close>

text \<open>
  The script \<^verbatim>\<open>mnist.py\<close> computes with Python and NumPy numbers. A finite float is
  modelled as a mathematical real: rounding and the overflow of finite floats are not
  represented. The floats \<^verbatim>\<open>inf\<close>, \<^verbatim>\<open>-inf\<close> and \<^verbatim>\<open>nan\<close> are values of their own, and a
  NumPy \<^verbatim>\<open>int64\<close> is an integer with the wrap-around written out. A raised exception is a
  failure that carries the exception's name. In the benchmarks, which only print their
  two numbers, a result that is no finite float is the failure \<open>NoRealValue\<close>.
\<close>

datatype failure =
    ZeroDivisionError
  | OverflowError
  | NoRealValue
  | NotImplementedError
  | KeyError string
  | IndexError
  | ValueError
  | AttributeError
  | TypeError
  | UnpicklingError
  | EOFError
  | IOError
  | SystemExit int
  | External string

datatype float64 = Finite real | PosInf | NegInf | NaN

datatype pyval =
    PyNone
  | PyBool bool
  | PyInt int
  | PyFloat real
  | PyStr string
  | PyInf
  | PyNegInf
  | PyNaN

text \<open>A float as a Python object.\<close>

fun py_of_float :: "float64 \<Rightarrow> pyval" where
  "py_of_float (Finite x) = PyFloat x"
| "py_of_float PosInf = PyInf"
| "py_of_float NegInf = PyNegInf"
| "py_of_float NaN = PyNaN"

text \<open>Truth value of a Python object, as an \<^verbatim>\<open>if\<close> uses it.\<close>

fun truthy :: "pyval \<Rightarrow> bool" where
  "truthy PyNone = False"
| "truthy (PyBool b) = b"
| "truthy (PyInt n) = (n \<noteq> 0)"
| "truthy (PyFloat x) = (x \<noteq> 0)"
| "truthy (PyStr s) = (s \<noteq> [])"
| "truthy PyInf = True"
| "truthy PyNegInf = True"
| "truthy PyNaN = True"

text \<open>\<^verbatim>\<open>d.get(key, default)\<close> and \<^verbatim>\<open>d[key]\<close> on a dictionary.\<close>

type_synonym settings = "string \<rightharpoonup> pyval"

definition dict_get :: "settings \<Rightarrow> string \<Rightarrow> pyval \<Rightarrow> pyval" where
  "dict_get d k dflt = (case d k of None \<Rightarrow> dflt | Some v \<Rightarrow> v)"

definition dict_item :: "settings \<Rightarrow> string \<Rightarrow> failure + pyval" where
  "dict_item d k = (case d k of None \<Rightarrow> Inl (KeyError k) | Some v \<Rightarrow> Inr v)"

section \<open>The learning-rate derivation (lines 113 to 118)\<close>

text \<open>
  The value \<open>i\<close> of line 115 is one of three kinds of number: the Python float \<^verbatim>\<open>1.0\<close>
  when no history file is found, a NumPy \<^verbatim>\<open>int64\<close> when the column \<^verbatim>\<open>i\<close> of the history has
  an entry, and \<^verbatim>\<open>nan\<close> when the history has no row.
\<close>

datatype iter_value = FloatIter real | Int64Iter int | NaNIter

text \<open>
  \<^verbatim>\<open>i // const\<close> with a Python float \<open>i\<close> and the integer \<open>const\<close> of the command line:
  the floor of the quotient, and ZeroDivisionError for a zero divisor.
\<close>

definition py_floordiv :: "real \<Rightarrow> int \<Rightarrow> failure + real" where
  "py_floordiv a b =
     (if b = 0 then Inl ZeroDivisionError else Inr (of_int \<lfloor>a / of_int b\<rfloor>))"

text \<open>
  \<^verbatim>\<open>x ** y\<close> on Python floats. A zero base with a negative exponent raises. A negative
  base with a fractional exponent gives a complex number, which is no float: the
  failure \<open>NoRealValue\<close>. Line 116 does not reach that case, its float base being
  \<open>1 + 1.0 // const\<close>, which is 0, 1 or 2.
\<close>

definition py_pow :: "real \<Rightarrow> real \<Rightarrow> failure + real" where
  "py_pow x y =
     (if 0 < x then Inr (x powr y)
      else if x = 0 then
        (if y < 0 then Inl ZeroDivisionError else if y = 0 then Inr 1 else Inr 0)
      else if y = of_int \<lfloor>y\<rfloor> then
        Inr ((if even \<lfloor>y\<rfloor> then 1 else - 1) * (- x) powr y)
      else Inl NoRealValue)"

text \<open>
  NumPy's \<^verbatim>\<open>int64\<close>: the integers from \<open>- 2^63\<close> to \<open>2^63 - 1\<close>; a result outside is
  reduced modulo \<open>2^64\<close> into that range (NumPy warns and goes on).
\<close>

definition wrap64 :: "int \<Rightarrow> int" where
  "wrap64 x = (x + 2 ^ 63) mod 2 ^ 64 - 2 ^ 63"

definition fits_int64 :: "int \<Rightarrow> bool" where
  "fits_int64 x \<longleftrightarrow> - (2 ^ 63) \<le> x \<and> x < 2 ^ 63"

text \<open>
  \<^verbatim>\<open>i // const\<close> with an \<^verbatim>\<open>int64\<close> \<open>i\<close> and the Python integer \<open>const\<close>. The divisor is
  converted to \<^verbatim>\<open>int64\<close>, which raises OverflowError for one that does not fit (NumPy 2;
  earlier versions compute in a wider type, which is not modelled). The quotient is
  rounded down. Division by zero does not raise: NumPy warns and the quotient is 0.
\<close>

definition np_floordiv :: "int \<Rightarrow> int \<Rightarrow> failure + int" where
  "np_floordiv i c =
     (if \<not> fits_int64 c then Inl OverflowError
      else if c = 0 then Inr 0
      else Inr (wrap64 (i div c)))"

text \<open>
  \<^verbatim>\<open>x ** y\<close> on NumPy floats, which never raises: any base to the power 0 is 1, a zero
  base with a negative exponent gives \<^verbatim>\<open>inf\<close>, a negative base with a fractional
  exponent gives \<^verbatim>\<open>nan\<close>.
\<close>

definition np_pow :: "real \<Rightarrow> real \<Rightarrow> float64" where
  "np_pow x y =
     (if y = 0 then Finite 1
      else if 0 < x then Finite (x powr y)
      else if x = 0 then (if y < 0 then PosInf else Finite 0)
      else if y = of_int \<lfloor>y\<rfloor> then
        Finite ((if even \<lfloor>y\<rfloor> then 1 else - 1) * (- x) powr y)
      else NaN)"

text \<open>The product of a float and a finite float.\<close>

fun float_times :: "float64 \<Rightarrow> real \<Rightarrow> float64" where
  "float_times (Finite x) b = Finite (x * b)"
| "float_times PosInf b = (if 0 < b then PosInf else if b < 0 then NegInf else NaN)"
| "float_times NegInf b = (if 0 < b then NegInf else if b < 0 then PosInf else NaN)"
| "float_times NaN b = NaN"

text \<open>
  Line 116: \<^verbatim>\<open>(1 + i // const) ** -pow * lr_base\<close>, for each kind of \<open>i\<close>. With an
  \<^verbatim>\<open>int64\<close> the sum \<open>1 + i // const\<close> is an \<^verbatim>\<open>int64\<close> again and wraps; the power converts it
  to a float. With \<^verbatim>\<open>nan\<close> the quotient and the sum are \<^verbatim>\<open>nan\<close>, whatever the divisor.
\<close>

definition derive_learning_rate ::
  "real \<Rightarrow> real \<Rightarrow> int \<Rightarrow> iter_value \<Rightarrow> failure + float64" where
  "derive_learning_rate lr_base pw const i =
     (case i of
        FloatIter x \<Rightarrow>
          (case py_floordiv x const of
             Inl e \<Rightarrow> Inl e
           | Inr q \<Rightarrow>
               (case py_pow (1 + q) (- pw) of
                  Inl e \<Rightarrow> Inl e
                | Inr p \<Rightarrow> Inr (Finite (p * lr_base))))
      | Int64Iter n \<Rightarrow>
          (case np_floordiv n const of
             Inl e \<Rightarrow> Inl e
           | Inr q \<Rightarrow> Inr (float_times (np_pow (of_int (wrap64 (1 + q))) (- pw)) lr_base))
      | NaNIter \<Rightarrow> Inr (float_times (if pw = 0 then Finite 1 else NaN) lr_base))"

section \<open>The history file\<close>

text \<open>
  The history is a data frame with one row per logged iteration; the script reads its
  column \<^verbatim>\<open>i\<close>, an \<^verbatim>\<open>int64\<close> column. What a path of the file system can hold: a pickled
  history; bytes that do not unpickle; a pickle cut short (or no byte at all); a file
  that cannot be opened for reading; and a history that cannot be examined, because a
  directory on the way to it cannot be searched or the device fails.
\<close>

record progress =
  row_i :: int
  row_t :: real

type_synonym history = "progress list"

datatype disk_file =
    Pickled history
  | Garbage
  | Truncated
  | Unreadable
  | Unreachable history

type_synonym filesystem = "string \<rightharpoonup> disk_file"

text \<open>
  \<^verbatim>\<open>os.path.exists\<close> asks the system for the status of the path and returns False when
  that call fails, whether or not a file is there.
\<close>

fun stat_succeeds :: "disk_file \<Rightarrow> bool" where
  "stat_succeeds (Unreachable h) = False"
| "stat_succeeds f = True"

definition path_exists :: "filesystem \<Rightarrow> string \<Rightarrow> bool" where
  "path_exists fs p = (case fs p of None \<Rightarrow> False | Some f \<Rightarrow> stat_succeeds f)"

definition read_pickle :: "filesystem \<Rightarrow> string \<Rightarrow> failure + history" where
  "read_pickle fs p =
     (case fs p of
        None \<Rightarrow> Inl IOError
      | Some (Pickled h) \<Rightarrow> Inr h
      | Some Garbage \<Rightarrow> Inl UnpicklingError
      | Some Truncated \<Rightarrow> Inl EOFError
      | Some Unreadable \<Rightarrow> Inl IOError
      | Some (Unreachable h) \<Rightarrow> Inl IOError)"

text \<open>\<^verbatim>\<open>h.i.max()\<close>: the greatest entry of the column, \<^verbatim>\<open>nan\<close> for a frame with no row.\<close>

fun df_i_max :: "history \<Rightarrow> iter_value" where
  "df_i_max [] = NaNIter"
| "df_i_max (r # rs) = Int64Iter (fold max (map row_i rs) (row_i r))"

text \<open>
  Line 115:
  \<^verbatim>\<open>i = pd.read_pickle(exp.hist_path).i.max() if os.path.exists(exp.hist_path) else 1.0\<close>.
\<close>

definition max_iteration_at :: "filesystem \<Rightarrow> string \<Rightarrow> failure + iter_value" where
  "max_iteration_at fs p =
     (if path_exists fs p then
        (case read_pickle fs p of Inl e \<Rightarrow> Inl e | Inr h \<Rightarrow> Inr (df_i_max h))
      else Inr (FloatIter 1))"

text \<open>Lines 115 to 117 together: the rate a launch derives from the file system.\<close>

definition launch_learning_rate ::
  "real \<Rightarrow> real \<Rightarrow> int \<Rightarrow> filesystem \<Rightarrow> string \<Rightarrow> failure + float64" where
  "launch_learning_rate lr_base pw const fs p =
     (case max_iteration_at fs p of
        Inl e \<Rightarrow> Inl e
      | Inr i \<Rightarrow> derive_learning_rate lr_base pw const i)"

text \<open>
  Line 59:
  \<^verbatim>\<open>h = pd.read_pickle(self.hist_path) if os.path.exists(self.hist_path) else None\<close>.
\<close>

definition load_old_hist :: "filesystem \<Rightarrow> string \<Rightarrow> failure + history option" where
  "load_old_hist fs p =
     (if path_exists fs p then
        (case read_pickle fs p of Inl e \<Rightarrow> Inl e | Inr h \<Rightarrow> Inr (Some h))
      else Inr None)"

section \<open>External collaborators\<close>

text \<open>
  NumPy's generators, GPflow's model and the optimiser are libraries. A generator is
  represented by its seed and the number of draws taken from it, and what it returns is
  a function of the two, supplied with the other library operations in one record.
\<close>

datatype rng = RandomState nat nat

type_synonym matrix = "real list list"

datatype kernel =
    RBF nat
  | Polynomial nat real
  | White nat real
  | ConvRBF "nat list" "nat list"
  | WeightedConv kernel "nat list" "nat list"
  | Add "kernel list"

record svgp =
  svgp_kern :: kernel
  svgp_kern_fixed :: pyval
  svgp_Z :: matrix
  svgp_minibatch_size :: pyval
  svgp_X_rng :: rng
  svgp_Y_rng :: rng
  svgp_W_fixed :: bool
  svgp_params :: "real list"

text \<open>
  The library operations. \<open>opt_step\<close> is one step of the optimiser: from the learning
  rate, the minibatch of features and labels and the parameters, the new parameters.
\<close>

record ext =
  perm_draw :: "nat \<Rightarrow> nat \<Rightarrow> nat \<Rightarrow> nat list"
  randint_draw :: "nat \<Rightarrow> nat \<Rightarrow> nat"
  index_draw :: "nat \<Rightarrow> nat \<Rightarrow> nat \<Rightarrow> pyval \<Rightarrow> nat list"
  init_inducing :: "kernel \<Rightarrow> matrix \<Rightarrow> int \<Rightarrow> pyval \<Rightarrow> failure + matrix"
  has_W :: "kernel \<Rightarrow> bool"
  entropy_X :: nat
  entropy_Y :: nat
  opt_step :: "pyval \<Rightarrow> matrix \<times> int list list \<Rightarrow> real list \<Rightarrow> failure + real list"
  is_due :: "nat \<Rightarrow> nat \<Rightarrow> bool"
  elapsed :: "nat \<Rightarrow> real"
  predict_y :: "svgp \<Rightarrow> matrix \<Rightarrow> failure + matrix"

text \<open>\<^verbatim>\<open>np.random.permutation(n)\<close> and \<^verbatim>\<open>np.random.randint(0, 1e9)\<close> on a generator.\<close>

fun np_permutation :: "ext \<Rightarrow> nat \<Rightarrow> rng \<Rightarrow> nat list \<times> rng" where
  "np_permutation e n (RandomState s k) = (perm_draw e s k n, RandomState s (Suc k))"

fun np_randint :: "ext \<Rightarrow> rng \<Rightarrow> nat \<times> rng" where
  "np_randint e (RandomState s k) = (randint_draw e s k mod 1000000000, RandomState s (Suc k))"

text \<open>
  One draw of minibatch indices by the index manager of a sampler over \<open>npoints\<close> points:
  what the sampler's generator gives at its present state, and the generator after it.
\<close>

fun next_indices :: "ext \<Rightarrow> nat \<Rightarrow> pyval \<Rightarrow> rng \<Rightarrow> nat list \<times> rng" where
  "next_indices e npoints mb (RandomState s k) = (index_draw e s k npoints mb, RandomState s (Suc k))"

text \<open>The rows of a data set that a list of indices selects.\<close>

definition minibatch :: "'a list \<Rightarrow> nat list \<Rightarrow> 'a list" where
  "minibatch rows idx = map (\<lambda>j. rows ! j) idx"

section \<open>Tasks\<close>

datatype schedule = SeqExpLin real real "real option" | Count nat nat

datatype trigger = TriggerIter | TriggerTime

text \<open>
  The six tasks of \<^verbatim>\<open>setup_logger\<close>, with the arguments that decide when a task fires and
  what it reads: schedule, trigger, the old history, the path and the ceiling. The
  held-out data and the display options of the trackers are left out.
\<close>

datatype task =
    DisplayOptimisation schedule
  | GPflowLogOptimisation schedule
  | GPflowMultiClassificationTrackerLml schedule trigger
  | GPflowMultiClassificationTracker schedule trigger "history option"
  | StoreOptimisationHistory string schedule trigger
  | Timeout pyval

section \<open>The experiment\<close>

text \<open>
  One optimiser step, as observed: the rate handed to the optimiser, the index lists the
  two samplers drew, and the feature rows and label rows of the minibatch.
\<close>

record step_record =
  step_rate :: pyval
  step_ix :: "nat list"
  step_iy :: "nat list"
  step_bx :: matrix
  step_by :: "int list list"

text \<open>
  One launch of the relaunch loop, as observed: the iteration read from the history
  file, the rate derived from it, the state of the global generator when the seed is
  drawn, the seed, the generators of the two samplers when the run starts, and the
  optimiser steps of the run.
\<close>

record launch =
  seen_i :: iter_value
  rate :: float64
  drawn_from :: rng
  seed :: nat
  run_X_rng :: rng
  run_Y_rng :: rng
  steps :: "step_record list"

text \<open>
  The state of the process. The script's \<^verbatim>\<open>run_settings\<close> and the experiment's
  \<^verbatim>\<open>self.run_settings\<close> are one dictionary object (line 24 stores the reference), so the
  state has one field for both. The fields \<open>exp_*\<close> are the attributes of the
  experiment object. \<open>iteration\<close> and \<open>mem_hist\<close> belong to the orchestration loop;
  \<open>step_log\<close> and \<open>launches\<close> record what happened and are read by no operation.
  What the script prints is not part of the state.
\<close>

record world =
  files :: filesystem
  np_random :: rng
  run_settings :: settings
  hist_path :: string
  exp_M :: int
  exp_X :: matrix
  exp_Y :: "int list list"
  exp_Xt :: matrix
  exp_Yt :: "int list list"
  exp_m :: "svgp option"
  exp_logger :: "task list option"
  iteration :: nat
  mem_hist :: history
  step_log :: "step_record list"
  launches :: "launch list"

text \<open>
  An exception leaves the state as it was when raised: a failing operation returns the
  failure with that state.
\<close>

type_synonym outcome = "failure \<times> world + world"

subsection \<open>\<^verbatim>\<open>setup_model\<close> (lines 27 to 56)\<close>

text \<open>\<^verbatim>\<open>xs[:n]\<close> for an integer \<open>n\<close>; a negative \<open>n\<close> counts from the end.\<close>

definition py_prefix :: "int \<Rightarrow> 'a list \<Rightarrow> 'a list" where
  "py_prefix n xs = (if 0 \<le> n then take (nat n) xs else take (length xs - nat (- n)) xs)"

text \<open>\<^verbatim>\<open>X[idx, :]\<close>: the rows at the indices, IndexError for an index out of range.\<close>

definition rows_at :: "'a list \<Rightarrow> nat list \<Rightarrow> failure + 'a list" where
  "rows_at rows idx =
     (if list_all (\<lambda>j. j < length rows) idx then Inr (minibatch rows idx) else Inl IndexError)"

text \<open>\<^verbatim>\<open>self.X[np.random.permutation(len(self.X))[:self.M], :]\<close>.\<close>

definition random_rows :: "ext \<Rightarrow> world \<Rightarrow> failure + matrix \<times> rng" where
  "random_rows e w =
     (case np_permutation e (length (exp_X w)) (np_random w) of
        (perm, g) \<Rightarrow>
          (case rows_at (exp_X w) (py_prefix (exp_M w) perm) of
             Inl err \<Rightarrow> Inl err
           | Inr Z \<Rightarrow> Inr (Z, g)))"

text \<open>The sum of two kernels; GPflow's \<^verbatim>\<open>Add\<close> takes the parts of a summand that is a sum.\<close>

fun kern_parts :: "kernel \<Rightarrow> kernel list" where
  "kern_parts (Add ks) = ks"
| "kern_parts k = [k]"

definition kern_add :: "kernel \<Rightarrow> kernel \<Rightarrow> kernel" where
  "kern_add a b = Add (kern_parts a @ kern_parts b)"

text \<open>
  Lines 28 to 44: the kernel for the name, with the inducing points where the branch
  draws them, and the generator after the draw.
\<close>

definition choose_kernel ::
  "ext \<Rightarrow> world \<Rightarrow> pyval \<Rightarrow> failure + kernel \<times> matrix option \<times> rng" where
  "choose_kernel e w name =
     (if name = PyStr ''rbf'' then
        (case random_rows e w of
           Inl err \<Rightarrow> Inl err
         | Inr (Z, g) \<Rightarrow> Inr (RBF (28 * 28), Some Z, g))
      else if name = PyStr ''poly'' then
        (case random_rows e w of
           Inl err \<Rightarrow> Inl err
         | Inr (Z, g) \<Rightarrow> Inr (Polynomial (28 * 28) 9, Some Z, g))
      else if name = PyStr ''rbfpoly'' then
        (case random_rows e w of
           Inl err \<Rightarrow> Inl err
         | Inr (Z, g) \<Rightarrow>
             Inr (kern_add (kern_add (Polynomial (28 * 28) 9) (RBF (28 * 28)))
                    (White (28 * 28) (1 / 10)),
                  Some Z, g))
      else if name = PyStr ''conv'' then
        Inr (kern_add (ConvRBF [28, 28] [5, 5]) (White 1 (1 / 1000)), None, np_random w)
      else if name = PyStr ''wconv'' then
        Inr (kern_add (WeightedConv (RBF 25) [28, 28] [5, 5]) (White 1 (1 / 1000)),
             None, np_random w)
      else Inl NotImplementedError)"

text \<open>Lines 46 to 49: the inducing points of a branch that drew none.\<close>

definition inducing_points :: "ext \<Rightarrow> world \<Rightarrow> kernel \<Rightarrow> matrix option \<Rightarrow> failure + matrix" where
  "inducing_points e w k Zopt =
     (case Zopt of
        Some Z \<Rightarrow> Inr Z
      | None \<Rightarrow>
          (case dict_item (run_settings w) ''Zinit'' of
             Inl err \<Rightarrow> Inl err
           | Inr method \<Rightarrow>
               (case k of
                  Add ks \<Rightarrow>
                    (case ks of
                       [] \<Rightarrow> Inl IndexError
                     | k0 # rest \<Rightarrow> init_inducing e k0 (exp_X w) (exp_M w) method)
                | _ \<Rightarrow> init_inducing e k (exp_X w) (exp_M w) method)))"

definition setup_model :: "ext \<Rightarrow> world \<Rightarrow> outcome" where
  "setup_model e w =
     (case dict_item (run_settings w) ''kernel'' of
        Inl err \<Rightarrow> Inl (err, w)
      | Inr name \<Rightarrow>
     (case choose_kernel e w name of
        Inl err \<Rightarrow> Inl (err, w)
      | Inr (k, Zopt, g) \<Rightarrow>
     (let w1 = w\<lparr>np_random := g\<rparr> in
     (case inducing_points e w1 k Zopt of
        Inl err \<Rightarrow> Inl (err, w1)
      | Inr Z \<Rightarrow>
     (let mdl = \<lparr>svgp_kern = k,
                 svgp_kern_fixed = dict_get (run_settings w1) ''fixed'' (PyBool False),
                 svgp_Z = Z,
                 svgp_minibatch_size =
                   dict_get (run_settings w1) ''minibatch_size'' (PyInt (exp_M w1)),
                 svgp_X_rng = RandomState (entropy_X e) 0,
                 svgp_Y_rng = RandomState (entropy_Y e) 0,
                 svgp_W_fixed = False,
                 svgp_params = []\<rparr>;
          w2 = w1\<lparr>exp_m := Some mdl\<rparr> in
     (case dict_item (run_settings w2) ''fix_w'' of
        Inl err \<Rightarrow> Inl (err, w2)
      | Inr fw \<Rightarrow>
          if truthy fw then
            (if has_W e k then Inr (w2\<lparr>exp_m := Some (mdl\<lparr>svgp_W_fixed := True\<rparr>)\<rparr>)
             else Inl (AttributeError, w2))
          else Inr w2))))))"

subsection \<open>\<^verbatim>\<open>setup_logger\<close> (lines 58 to 75)\<close>

definition logger_tasks :: "world \<Rightarrow> history option \<Rightarrow> task list" where
  "logger_tasks w h =
     [DisplayOptimisation (SeqExpLin 1.1 20 None),
      GPflowLogOptimisation (SeqExpLin 1.1 20 None),
      GPflowMultiClassificationTrackerLml (Count 1800 1800) TriggerTime,
      GPflowMultiClassificationTracker (SeqExpLin 1.5 150 (Some 30)) TriggerTime h,
      StoreOptimisationHistory (hist_path w) (SeqExpLin 1.5 600 (Some 30)) TriggerTime,
      Timeout (dict_get (run_settings w) ''timeout'' PyInf)]"

definition setup_logger :: "world \<Rightarrow> outcome" where
  "setup_logger w =
     (case load_old_hist (files w) (hist_path w) of
        Inl err \<Rightarrow> Inl (err, w)
      | Inr h \<Rightarrow> Inr (w\<lparr>exp_logger := Some (logger_tasks w h)\<rparr>))"

section \<open>Initialisation, the run and its tasks\<close>

text \<open>
  Modelled from the spec: the dispatcher of the orchestration loop is not under src/
  (it belongs to \<^verbatim>\<open>opt_tools\<close>). Section 4.4: the loop "dispatches due Tasks in a fixed,
  deterministic order"; the order is that of the task list handed to the helper on
  line 75. \<open>due j\<close> tells whether the task at position \<open>j\<close> of the list is due.
\<close>

definition dispatch :: "(nat \<Rightarrow> bool) \<Rightarrow> task list \<Rightarrow> task list" where
  "dispatch due ts = map snd (filter (\<lambda>jt. due (fst jt)) (enumerate 0 ts))"

text \<open>
  Modelled from the spec: the Timeout task is not under src/. Section 4.3: it "compares
  elapsed wall time against a configured ceiling (default: unbounded) and emits a
  TerminationSignal when exceeded". No time exceeds \<^verbatim>\<open>inf\<close>, every time exceeds \<^verbatim>\<open>-inf\<close>,
  and a comparison with \<^verbatim>\<open>nan\<close> is false.
\<close>

fun timeout_fires :: "real \<Rightarrow> pyval \<Rightarrow> bool" where
  "timeout_fires t (PyFloat c) = (c < t)"
| "timeout_fires t (PyInt c) = (of_int c < t)"
| "timeout_fires t PyInf = False"
| "timeout_fires t PyNegInf = True"
| "timeout_fires t PyNaN = False"
| "timeout_fires t PyNone = False"
| "timeout_fires t (PyBool b) = False"
| "timeout_fires t (PyStr s) = False"

text \<open>
  Modelled from the spec: the persistence of the log is not under src/. Section 4.2: it
  "writes the full log atomically", so the path holds the old content or the new one.
  A path that cannot be examined cannot be written either: the write raises.
\<close>

definition store_history :: "filesystem \<Rightarrow> string \<Rightarrow> history \<Rightarrow> failure + filesystem" where
  "store_history fs p h =
     (case fs p of
        None \<Rightarrow> Inr (fs(p \<mapsto> Pickled h))
      | Some f \<Rightarrow> if stat_succeeds f then Inr (fs(p \<mapsto> Pickled h)) else Inl IOError)"

text \<open>
  Modelled from the spec: the behaviour of a task when it fires is not under src/.
  Section 4.3: the display task has no persistent effect; the metric task appends the
  current progress to the in-memory log; the evaluation tasks record held-out metrics
  (no field of this state); the persistence task writes the log to the history path; the
  timeout task raises the termination signal. The flag says whether the signal is up.
\<close>

fun fire :: "ext \<Rightarrow> nat \<Rightarrow> task \<Rightarrow> world \<times> bool \<Rightarrow> failure \<times> world + world \<times> bool" where
  "fire e k (DisplayOptimisation sch) (w, stop) = Inr (w, stop)"
| "fire e k (GPflowLogOptimisation sch) (w, stop) =
     Inr (w\<lparr>mem_hist := mem_hist w @ [\<lparr>row_i = int (iteration w), row_t = elapsed e k\<rparr>]\<rparr>,
          stop)"
| "fire e k (GPflowMultiClassificationTrackerLml sch tr) (w, stop) = Inr (w, stop)"
| "fire e k (GPflowMultiClassificationTracker sch tr h) (w, stop) = Inr (w, stop)"
| "fire e k (StoreOptimisationHistory path sch tr) (w, stop) =
     (case store_history (files w) path (mem_hist w) of
        Inl err \<Rightarrow> Inl (err, w)
      | Inr fs \<Rightarrow> Inr (w\<lparr>files := fs\<rparr>, stop))"
| "fire e k (Timeout c) (w, stop) = Inr (w, stop \<or> timeout_fires (elapsed e k) c)"

text \<open>The dispatched tasks fire one after the other; a failure ends the step.\<close>

fun fire_all ::
  "ext \<Rightarrow> nat \<Rightarrow> task list \<Rightarrow> world \<times> bool \<Rightarrow> failure \<times> world + world \<times> bool" where
  "fire_all e k [] s = Inr s"
| "fire_all e k (t # ts) s =
     (case fire e k t s of
        Inl f \<Rightarrow> Inl f
      | Inr s' \<Rightarrow> fire_all e k ts s')"

text \<open>
  Modelled from the spec: the minibatch sampler is not under src/ (it belongs to GPflow).
  Section 6: the data set has "a minibatch sampler with an externally reseedable random
  source". Lines 54, 121 and 122 show a sampler for the features and one for the labels,
  each with an index manager that owns a generator, and one minibatch size for both. For
  an optimiser step each sampler draws an index list from its own generator and selects
  the rows at these indices from its own data.
\<close>

definition draw_minibatch ::
  "ext \<Rightarrow> world \<Rightarrow> svgp \<Rightarrow>
   failure + (nat list \<times> nat list) \<times> (matrix \<times> int list list) \<times> (rng \<times> rng)" where
  "draw_minibatch e w mdl =
     (case next_indices e (length (exp_X w)) (svgp_minibatch_size mdl) (svgp_X_rng mdl) of
        (ix, gx) \<Rightarrow>
     (case next_indices e (length (exp_Y w)) (svgp_minibatch_size mdl) (svgp_Y_rng mdl) of
        (iy, gy) \<Rightarrow>
     (case rows_at (exp_X w) ix of
        Inl err \<Rightarrow> Inl err
      | Inr bx \<Rightarrow>
     (case rows_at (exp_Y w) iy of
        Inl err \<Rightarrow> Inl err
      | Inr by \<Rightarrow> Inr ((ix, iy), (bx, by), (gx, gy))))))"

text \<open>
  Modelled from the spec: \<^verbatim>\<open>exp_tools.MnistExperiment.run\<close> is not under src/. Section 4.4,
  state RUNNING: each step "requests one optimizer step from the external collaborator
  (passing the current learning rate), increments the global iteration counter,
  evaluates every TaskBinding's due-check, dispatches due Tasks" and stops at the
  iteration budget or at a termination signal. The current learning rate is the entry
  of the settings dictionary, read again at every step. \<open>n\<close> is the remaining budget and
  \<open>k\<close> the number of steps this run has taken.
\<close>

fun run_steps :: "ext \<Rightarrow> nat \<Rightarrow> nat \<Rightarrow> world \<Rightarrow> outcome" where
  "run_steps e 0 k w = Inr w"
| "run_steps e (Suc n) k w =
     (case dict_item (run_settings w) ''learning_rate'' of
        Inl err \<Rightarrow> Inl (err, w)
      | Inr lr \<Rightarrow>
     (case exp_m w of
        None \<Rightarrow> Inl (AttributeError, w)
      | Some mdl \<Rightarrow>
     (case exp_logger w of
        None \<Rightarrow> Inl (AttributeError, w)
      | Some ts \<Rightarrow>
     (case draw_minibatch e w mdl of
        Inl err \<Rightarrow> Inl (err, w)
      | Inr ((ix, iy), (bx, by), (gx, gy)) \<Rightarrow>
     (case opt_step e lr (bx, by) (svgp_params mdl) of
        Inl err \<Rightarrow> Inl (err, w\<lparr>exp_m := Some (mdl\<lparr>svgp_X_rng := gx, svgp_Y_rng := gy\<rparr>)\<rparr>)
      | Inr ps \<Rightarrow>
     (case fire_all e k (dispatch (\<lambda>j. is_due e j k) ts)
             (w\<lparr>exp_m := Some (mdl\<lparr>svgp_X_rng := gx, svgp_Y_rng := gy, svgp_params := ps\<rparr>),
                iteration := Suc (iteration w),
                step_log := step_log w @
                  [\<lparr>step_rate = lr, step_ix = ix, step_iy = iy,
                    step_bx = bx, step_by = by\<rparr>]\<rparr>, False) of
        Inl f \<Rightarrow> Inl f
      | Inr (w', stop) \<Rightarrow> if stop then Inr w' else run_steps e n (Suc k) w'))))))"

definition exp_run :: "ext \<Rightarrow> int \<Rightarrow> world \<Rightarrow> outcome" where
  "exp_run e maxiter w = run_steps e (nat maxiter) 0 (w\<lparr>step_log := []\<rparr>)"

text \<open>The old history that \<^verbatim>\<open>setup_logger\<close> handed to the tracker, empty if none.\<close>

fun old_hist_of :: "task list \<Rightarrow> history" where
  "old_hist_of [] = []"
| "old_hist_of (GPflowMultiClassificationTracker sch tr h # ts) =
     (case h of None \<Rightarrow> [] | Some rows \<Rightarrow> rows)"
| "old_hist_of (t # ts) = old_hist_of ts"

fun last_iteration :: "history \<Rightarrow> nat" where
  "last_iteration [] = 0"
| "last_iteration (r # rs) = nat (fold max (map row_i rs) (row_i r))"

text \<open>
  Modelled from the spec: \<^verbatim>\<open>exp_tools.MnistExperiment.setup\<close> is not under src/. Section 4.4,
  state INITIALIZING: construct the model, "load HistoryLog", "construct/attach all
  TaskBindings"; progress continues from the last persisted iteration (section 3).
  The two methods it calls are the ones \<^verbatim>\<open>mnist.py\<close> overrides.
\<close>

definition exp_setup :: "ext \<Rightarrow> world \<Rightarrow> outcome" where
  "exp_setup e w =
     (case setup_model e w of
        Inl f \<Rightarrow> Inl f
      | Inr w1 \<Rightarrow>
          (case setup_logger w1 of
             Inl f \<Rightarrow> Inl f
           | Inr w2 \<Rightarrow>
               (case exp_logger w2 of
                  None \<Rightarrow> Inl (AttributeError, w2)
                | Some ts \<Rightarrow>
                    Inr (w2\<lparr>mem_hist := old_hist_of ts,
                           iteration := last_iteration (old_hist_of ts)\<rparr>))))"

section \<open>The relaunch loop (lines 113 to 123)\<close>

text \<open>
  Lines 120 to 122: a seed from the global generator, and a new generator with that
  seed for each of the two samplers.
\<close>

definition reseed_samplers :: "ext \<Rightarrow> world \<Rightarrow> failure \<times> world + nat \<times> svgp \<times> world" where
  "reseed_samplers e w =
     (case np_randint e (np_random w) of
        (rndstate, g) \<Rightarrow>
          (case exp_m w of
             None \<Rightarrow> Inl (AttributeError, w\<lparr>np_random := g\<rparr>)
           | Some mdl \<Rightarrow>
               (let mdl' = mdl\<lparr>svgp_X_rng := RandomState rndstate 0,
                               svgp_Y_rng := RandomState rndstate 0\<rparr>
                in Inr (rndstate, mdl', w\<lparr>np_random := g, exp_m := Some mdl'\<rparr>))))"

text \<open>
  Lines 115 to 123: the body of the loop, one launch. \<open>lr_base\<close> is read on line 113,
  before the loop. The rate is stored in the settings dictionary, from which the run
  reads it.
\<close>

definition launch_once :: "ext \<Rightarrow> real \<Rightarrow> real \<Rightarrow> int \<Rightarrow> world \<Rightarrow> outcome" where
  "launch_once e lr_base pw const w =
     (case max_iteration_at (files w) (hist_path w) of
        Inl err \<Rightarrow> Inl (err, w)
      | Inr i \<Rightarrow>
     (case derive_learning_rate lr_base pw const i of
        Inl err \<Rightarrow> Inl (err, w)
      | Inr lr \<Rightarrow>
     (case exp_setup e
             (w\<lparr>run_settings := (run_settings w)(''learning_rate'' \<mapsto> py_of_float lr)\<rparr>) of
        Inl f \<Rightarrow> Inl f
      | Inr w1 \<Rightarrow>
     (case reseed_samplers e w1 of
        Inl f \<Rightarrow> Inl f
      | Inr (rndstate, mdl, w2) \<Rightarrow>
     (case exp_run e const w2 of
        Inl f \<Rightarrow> Inl f
      | Inr w3 \<Rightarrow>
          Inr (w3\<lparr>launches := launches w3 @
                   [\<lparr>seen_i = i, rate = lr, drawn_from = np_random w1, seed = rndstate,
                     run_X_rng = svgp_X_rng mdl, run_Y_rng = svgp_Y_rng mdl,
                     steps = step_log w3\<rparr>]\<rparr>))))))"

text \<open>
  The loop \<^verbatim>\<open>while True\<close> has no exit but an exception. \<open>training_loop\<close> with fuel \<open>n\<close>
  is the state after \<open>n\<close> iterations of the loop, or the failure that ended it earlier.
\<close>

fun training_loop :: "ext \<Rightarrow> real \<Rightarrow> real \<Rightarrow> int \<Rightarrow> nat \<Rightarrow> world \<Rightarrow> outcome" where
  "training_loop e lr_base pw const 0 w = Inr w"
| "training_loop e lr_base pw const (Suc n) w =
     (case launch_once e lr_base pw const w of
        Inl f \<Rightarrow> Inl f
      | Inr w' \<Rightarrow> training_loop e lr_base pw const n w')"

section \<open>The command line (lines 79 to 105)\<close>

datatype arg_action = Store | StoreTrue

datatype arg_type = AsStr | AsInt | AsFloat

record argument =
  arg_flags :: "string list"
  arg_action :: arg_action
  arg_type :: arg_type
  arg_default :: pyval

text \<open>The fifteen \<^verbatim>\<open>add_argument\<close> calls, in the order of the source.\<close>

definition parser_arguments :: "argument list" where
  "parser_arguments =
     [\<lparr>arg_flags = [''--fixed'', ''-f''], arg_action = StoreTrue, arg_type = AsStr,
        arg_default = PyBool False\<rparr>,
      \<lparr>arg_flags = [''--name'', ''-n''], arg_action = Store, arg_type = AsStr,
        arg_default = PyNone\<rparr>,
      \<lparr>arg_flags = [''--learning-rate'', ''-l''], arg_action = Store, arg_type = AsFloat,
        arg_default = PyFloat 0.001\<rparr>,
      \<lparr>arg_flags = [''--learning-rate-pow''], arg_action = Store, arg_type = AsFloat,
        arg_default = PyFloat 0.5\<rparr>,
      \<lparr>arg_flags = [''--learning-rate-schedule-const''], arg_action = Store, arg_type = AsInt,
        arg_default = PyInt 3600\<rparr>,
      \<lparr>arg_flags = [''--profile''], arg_action = StoreTrue, arg_type = AsStr,
        arg_default = PyBool False\<rparr>,
      \<lparr>arg_flags = [''--no-opt''], arg_action = StoreTrue, arg_type = AsStr,
        arg_default = PyBool False\<rparr>,
      \<lparr>arg_flags = [''-M''], arg_action = Store, arg_type = AsInt,
        arg_default = PyInt 100\<rparr>,
      \<lparr>arg_flags = [''--minibatch-size''], arg_action = Store, arg_type = AsInt,
        arg_default = PyInt 100\<rparr>,
      \<lparr>arg_flags = [''--benchmarks''], arg_action = StoreTrue, arg_type = AsStr,
        arg_default = PyBool False\<rparr>,
      \<lparr>arg_flags = [''--optimiser'', ''-o''], arg_action = Store, arg_type = AsStr,
        arg_default = PyStr ''adam''\<rparr>,
      \<lparr>arg_flags = [''--fix-w''], arg_action = StoreTrue, arg_type = AsStr,
        arg_default = PyBool False\<rparr>,
      \<lparr>arg_flags = [''--kernel'', ''-k''], arg_action = Store, arg_type = AsStr,
        arg_default = PyNone\<rparr>,
      \<lparr>arg_flags = [''--Zinit''], arg_action = Store, arg_type = AsStr,
        arg_default = PyStr ''patches-unique''\<rparr>,
      \<lparr>arg_flags = [''--lml''], arg_action = StoreTrue, arg_type = AsStr,
        arg_default = PyBool False\<rparr>]"

text \<open>
  The attribute name argparse gives an option: the first long flag, or else the first
  flag, without its leading dashes and with every other dash turned into an underscore.
\<close>

definition is_long :: "string \<Rightarrow> bool" where
  "is_long f = (take 2 f = ''--'')"

definition dest_of :: "argument \<Rightarrow> string" where
  "dest_of a =
     (let f = (case filter is_long (arg_flags a) of
                 [] \<Rightarrow> (case arg_flags a of [] \<Rightarrow> [] | f0 # fs \<Rightarrow> f0)
               | l # ls \<Rightarrow> l)
      in map (\<lambda>c. if c = CHR ''-'' then CHR ''_'' else c) (dropWhile (\<lambda>c. c = CHR ''-'') f))"

text \<open>
  \<^verbatim>\<open>int(s)\<close> and \<^verbatim>\<open>float(s)\<close> on plain decimal literals: an optional sign, digits, and for
  a float an optional point with digits. Other spellings that Python accepts (exponents,
  surrounding blanks, \<^verbatim>\<open>inf\<close>) are outside this model and are refused by it.
\<close>

definition digit_of :: "char \<Rightarrow> nat option" where
  "digit_of c =
     (let k = length (takeWhile (\<lambda>d. d \<noteq> c) ''0123456789'')
      in if k < 10 then Some k else None)"

fun digits_value :: "string \<Rightarrow> nat \<Rightarrow> nat option" where
  "digits_value [] acc = Some acc"
| "digits_value (c # cs) acc =
     (case digit_of c of None \<Rightarrow> None | Some d \<Rightarrow> digits_value cs (10 * acc + d))"

definition nat_literal :: "string \<Rightarrow> nat option" where
  "nat_literal s = (if s = [] then None else digits_value s 0)"

definition unsigned_float :: "string \<Rightarrow> real option" where
  "unsigned_float s =
     (let ip = takeWhile (\<lambda>c. c \<noteq> CHR ''.'') s;
          rest = dropWhile (\<lambda>c. c \<noteq> CHR ''.'') s
      in case rest of
           [] \<Rightarrow> map_option real (nat_literal ip)
         | dot # fp \<Rightarrow>
             (if ip = [] \<and> fp = [] then None
              else (case (digits_value ip 0, digits_value fp 0) of
                      (Some a, Some b) \<Rightarrow> Some (real a + real b / 10 ^ length fp)
                    | _ \<Rightarrow> None)))"

definition signed :: "(string \<Rightarrow> 'a option) \<Rightarrow> ('a \<Rightarrow> 'a) \<Rightarrow> string \<Rightarrow> 'a option" where
  "signed lit neg s =
     (case s of
        [] \<Rightarrow> None
      | c # cs \<Rightarrow>
          if c = CHR ''-'' then map_option neg (lit cs)
          else if c = CHR ''+'' then lit cs
          else lit s)"

definition convert :: "arg_type \<Rightarrow> string \<Rightarrow> pyval option" where
  "convert ty s =
     (case ty of
        AsStr \<Rightarrow> Some (PyStr s)
      | AsInt \<Rightarrow> map_option PyInt (signed (\<lambda>t. map_option int (nat_literal t)) uminus s)
      | AsFloat \<Rightarrow> map_option PyFloat (signed unsigned_float uminus s))"

text \<open>
  The command line as argparse sees it after splitting: a list of option occurrences,
  each a flag as written and the value that follows it, if any. Abbreviated and joined
  spellings (\<^verbatim>\<open>--lml\<close> written \<^verbatim>\<open>--lm\<close>, \<^verbatim>\<open>-M100\<close>, \<^verbatim>\<open>--name=x\<close>) are taken to be resolved to
  this form. An occurrence with no declared flag, and a value after a flag that takes
  none, are collected and reported when all have been read; every argparse error exits
  with status 2, and \<^verbatim>\<open>-h\<close> exits with status 0.
\<close>

definition find_argument :: "string \<Rightarrow> argument option" where
  "find_argument flag = List.find (\<lambda>a. flag \<in> set (arg_flags a)) parser_arguments"

definition default_namespace :: settings where
  "default_namespace = fold (\<lambda>a ns. ns(dest_of a \<mapsto> arg_default a)) parser_arguments Map.empty"

fun parse_occurrences ::
  "(string \<times> string option) list \<Rightarrow> bool \<Rightarrow> settings \<Rightarrow> failure + settings" where
  "parse_occurrences [] extras ns = (if extras then Inl (SystemExit 2) else Inr ns)"
| "parse_occurrences ((flag, v) # rest) extras ns =
     (if flag = ''-h'' \<or> flag = ''--help'' then Inl (SystemExit 0)
      else
        (case find_argument flag of
           None \<Rightarrow> parse_occurrences rest True ns
         | Some a \<Rightarrow>
             (case arg_action a of
                StoreTrue \<Rightarrow>
                  (case v of
                     Some s \<Rightarrow> parse_occurrences rest True (ns(dest_of a \<mapsto> PyBool True))
                   | None \<Rightarrow> parse_occurrences rest extras (ns(dest_of a \<mapsto> PyBool True)))
              | Store \<Rightarrow>
                  (case v of
                     None \<Rightarrow> Inl (SystemExit 2)
                   | Some s \<Rightarrow>
                       (case convert (arg_type a) s of
                          None \<Rightarrow> Inl (SystemExit 2)
                        | Some x \<Rightarrow> parse_occurrences rest extras (ns(dest_of a \<mapsto> x)))))))"

definition parse_args :: "(string \<times> string option) list \<Rightarrow> failure + settings" where
  "parse_args occs = parse_occurrences occs False default_namespace"

text \<open>
  Lines 101 to 104: a copy of the namespace without three of its entries. The three keys
  are always there, so \<^verbatim>\<open>del\<close> cannot fail.
\<close>

definition cli_run_settings :: "settings \<Rightarrow> settings" where
  "cli_run_settings ns = ns(''profile'' := None, ''no_opt'' := None, ''name'' := None)"

text \<open>
  Line 105: the experiment object for the parsed arguments. The history path comes from
  the experiment name in \<^verbatim>\<open>exp_tools\<close> and is kept as the state has it.
\<close>

definition experiment_from_args :: "settings \<Rightarrow> world \<Rightarrow> outcome" where
  "experiment_from_args ns w =
     (case ns ''M'' of
        Some (PyInt n) \<Rightarrow> Inr (w\<lparr>run_settings := cli_run_settings ns, exp_M := n\<rparr>)
      | _ \<Rightarrow> Inl (TypeError, w))"

section \<open>The benchmarks (lines 125 to 132)\<close>

text \<open>Two index or value arrays of equal length, or one of length one against the other.\<close>

definition broadcast2 :: "'a list \<Rightarrow> 'b list \<Rightarrow> ('a \<times> 'b) list option" where
  "broadcast2 xs ys =
     (if length xs = length ys then Some (zip xs ys)
      else if length xs = 1 then Some (map (\<lambda>y. (hd xs, y)) ys)
      else if length ys = 1 then Some (map (\<lambda>x. (x, hd ys)) xs)
      else None)"

text \<open>The first failure of a list of results, or all the values.\<close>

fun collect :: "(failure + 'a) list \<Rightarrow> failure + 'a list" where
  "collect [] = Inr []"
| "collect (r # rs) =
     (case r of
        Inl err \<Rightarrow> Inl err
      | Inr x \<Rightarrow> (case collect rs of Inl err \<Rightarrow> Inl err | Inr xs \<Rightarrow> Inr (x # xs)))"

text \<open>\<^verbatim>\<open>p[i, y]\<close>: a negative column index counts from the end of the row.\<close>

definition np_item :: "matrix \<Rightarrow> nat \<times> int \<Rightarrow> failure + real" where
  "np_item p iy =
     (case iy of
        (i, y) \<Rightarrow>
          if i < length p then
            (let row = p ! i; n = int (length row); j = (if y < 0 then y + n else y)
             in if 0 \<le> j \<and> j < n then Inr (row ! nat j) else Inl IndexError)
          else Inl IndexError)"

text \<open>\<^verbatim>\<open>np.log\<close> has a real value on positive arguments only.\<close>

definition np_log :: "real \<Rightarrow> failure + real" where
  "np_log x = (if 0 < x then Inr (ln x) else Inl NoRealValue)"

text \<open>\<^verbatim>\<open>np.mean\<close>; the mean of no value is \<^verbatim>\<open>nan\<close>.\<close>

definition np_mean :: "real list \<Rightarrow> failure + real" where
  "np_mean xs = (if xs = [] then Inl NoRealValue else Inr (sum_list xs / real (length xs)))"

text \<open>\<^verbatim>\<open>argmax\<close> of a row: the first position of the greatest entry.\<close>

fun argmax_from :: "real list \<Rightarrow> nat \<Rightarrow> nat \<Rightarrow> real \<Rightarrow> nat" where
  "argmax_from [] j b v = b"
| "argmax_from (x # xs) j b v =
     (if v < x then argmax_from xs (Suc j) j x else argmax_from xs (Suc j) b v)"

definition np_argmax :: "real list \<Rightarrow> failure + nat" where
  "np_argmax row = (case row of [] \<Rightarrow> Inl ValueError | x # xs \<Rightarrow> Inr (argmax_from xs 1 0 x))"

text \<open>\<^verbatim>\<open>Yt[:, 0]\<close>, entry by entry.\<close>

definition first_column :: "int list \<Rightarrow> failure + int" where
  "first_column r = (case r of [] \<Rightarrow> Inl IndexError | y # ys \<Rightarrow> Inr y)"

text \<open>
  Line 128: \<^verbatim>\<open>np.mean(np.log(p[np.arange(len(exp.Xt)), exp.Yt.flatten()]))\<close>, with \<open>n\<close> the
  number of held-out rows.
\<close>

definition log_predictive :: "matrix \<Rightarrow> nat \<Rightarrow> int list list \<Rightarrow> failure + real" where
  "log_predictive p n Yt =
     (case broadcast2 [0..<n] (concat Yt) of
        None \<Rightarrow> Inl IndexError
      | Some ix \<Rightarrow>
          (case collect (map (np_item p) ix) of
             Inl err \<Rightarrow> Inl err
           | Inr vals \<Rightarrow>
               (case collect (map np_log vals) of
                  Inl err \<Rightarrow> Inl err
                | Inr logs \<Rightarrow> np_mean logs)))"

text \<open>
  Line 129: \<^verbatim>\<open>np.mean(p.argmax(1) == exp.Yt[:, 0])\<close>. Arrays that do not broadcast make
  the comparison a ValueError here (older NumPy versions warn and compare unequal).
\<close>

definition accuracy :: "matrix \<Rightarrow> int list list \<Rightarrow> failure + real" where
  "accuracy p Yt =
     (case collect (map np_argmax p) of
        Inl err \<Rightarrow> Inl err
      | Inr am \<Rightarrow>
          (case collect (map first_column Yt) of
             Inl err \<Rightarrow> Inl err
           | Inr ys \<Rightarrow>
               (case broadcast2 am ys of
                  None \<Rightarrow> Inl ValueError
                | Some prs \<Rightarrow>
                    np_mean (map (\<lambda>ay. if int (fst ay) = snd ay then 1 else 0) prs))))"

text \<open>Lines 126 to 129: the pair of accuracy and log predictive probability.\<close>

definition benchmarks :: "ext \<Rightarrow> world \<Rightarrow> failure \<times> world + (real \<times> real) \<times> world" where
  "benchmarks e w =
     (case exp_setup e w of
        Inl f \<Rightarrow> Inl f
      | Inr w1 \<Rightarrow>
     (case exp_m w1 of
        None \<Rightarrow> Inl (AttributeError, w1)
      | Some mdl \<Rightarrow>
     (case predict_y e mdl (exp_Xt w1) of
        Inl err \<Rightarrow> Inl (err, w1)
      | Inr p \<Rightarrow>
     (case log_predictive p (length (exp_Xt w1)) (exp_Yt w1) of
        Inl err \<Rightarrow> Inl (err, w1)
      | Inr lpp \<Rightarrow>
     (case accuracy p (exp_Yt w1) of
        Inl err \<Rightarrow> Inl (err, w1)
      | Inr acc \<Rightarrow> Inr ((acc, lpp), w1))))))"

section \<open>Vocabulary of the properties\<close>

text \<open>The three kinds of task that the dispatch order is stated for.\<close>

fun is_metric_logging :: "task \<Rightarrow> bool" where
  "is_metric_logging (GPflowLogOptimisation sch) = True"
| "is_metric_logging t = False"

fun is_history_persistence :: "task \<Rightarrow> bool" where
  "is_history_persistence (StoreOptimisationHistory path sch tr) = True"
| "is_history_persistence t = False"

fun is_timeout :: "task \<Rightarrow> bool" where
  "is_timeout (Timeout c) = True"
| "is_timeout t = False"


text \<open>
  The greatest iteration of a history, in the words of the specification: an entry of
  the column that no entry exceeds.
\<close>

definition greatest_iteration :: "history \<Rightarrow> int \<Rightarrow> bool" where
  "greatest_iteration h i \<longleftrightarrow> (\<exists>r \<in> set h. row_i r = i) \<and> (\<forall>r \<in> set h. row_i r \<le> i)"

text \<open>
  The iterations for which line 116 stays within \<^verbatim>\<open>int64\<close>, for a step constant \<open>c\<close>: a
  non-negative float, or a non-negative \<^verbatim>\<open>int64\<close> with \<open>c\<close> and one plus the quotient by
  \<open>c\<close> both less than \<open>2^63\<close>.
\<close>

fun within_int64 :: "int \<Rightarrow> iter_value \<Rightarrow> bool" where
  "within_int64 c (FloatIter x) = (0 \<le> x)"
| "within_int64 c (Int64Iter n) = (0 \<le> n \<and> c < 2 ^ 63 \<and> 1 + n div c < 2 ^ 63)"
| "within_int64 c NaNIter = False"

text \<open>The iteration as a number.\<close>

fun iter_real :: "iter_value \<Rightarrow> real" where
  "iter_real (FloatIter x) = x"
| "iter_real (Int64Iter n) = of_int n"
| "iter_real NaNIter = 0"

text \<open>
  What the observations of one launch \<open>l\<close> say, for the data \<open>X\<close> and \<open>Y\<close> of the
  experiment: the rate is the one derived from the iteration read; the run takes at most
  \<open>const\<close> optimiser steps and every step is handed that rate; the seed is the draw from
  the global generator, and both samplers start the run on a new generator with that
  seed; the rows of a minibatch are the rows at the indices drawn; and with as many
  labels as features the two samplers draw the same indices at every step.
\<close>

definition launch_ok ::
  "ext \<Rightarrow> real \<Rightarrow> real \<Rightarrow> int \<Rightarrow> matrix \<Rightarrow> int list list \<Rightarrow> launch \<Rightarrow> bool" where
  "launch_ok e lr_base pw const X Y l \<longleftrightarrow>
     derive_learning_rate lr_base pw const (seen_i l) = Inr (rate l)
     \<and> length (steps l) \<le> nat const
     \<and> (\<forall>s \<in> set (steps l). step_rate s = py_of_float (rate l))
     \<and> fst (np_randint e (drawn_from l)) = seed l
     \<and> run_X_rng l = RandomState (seed l) 0
     \<and> run_Y_rng l = RandomState (seed l) 0
     \<and> (\<forall>s \<in> set (steps l). rows_at X (step_ix s) = Inr (step_bx s)
            \<and> rows_at Y (step_iy s) = Inr (step_by s))
     \<and> (length X = length Y \<longrightarrow> (\<forall>s \<in> set (steps l). step_ix s = step_iy s))"

section \<open>A concrete environment\<close>

text \<open>
  One instance of the external collaborators and one initial state, small enough to
  evaluate the definitions on: three training rows, two held-out rows, no history file,
  the settings of a command line without options and the kernel \<^verbatim>\<open>rbf\<close>. Every task is
  due at every step, and a sampler draws two indices.
\<close>

definition sample_ext :: ext where
  "sample_ext =
     \<lparr>perm_draw = (\<lambda>s k n. rev [0..<n]),
      randint_draw = (\<lambda>s k. s + k + 41),
      index_draw = (\<lambda>s k n mb. [(s + k) mod n, (s + k + 1) mod n]),
      init_inducing = (\<lambda>k X m method. Inr (py_prefix m X)),
      has_W = (\<lambda>k. False),
      entropy_X = 11,
      entropy_Y = 12,
      opt_step = (\<lambda>lr batch ps. Inr (0 # ps)),
      is_due = (\<lambda>j k. True),
      elapsed = (\<lambda>k. real k),
      predict_y = (\<lambda>mdl X. Inr (map (\<lambda>r. [0.7, 0.3]) X))\<rparr>"

definition sample_world :: world where
  "sample_world =
     \<lparr>files = Map.empty,
      np_random = RandomState 5 0,
      run_settings = (cli_run_settings default_namespace)(''kernel'' \<mapsto> PyStr ''rbf''),
      hist_path = ''hist.pkl'',
      exp_M = 2,
      exp_X = [[0], [1], [2]],
      exp_Y = [[0], [1], [0]],
      exp_Xt = [[3], [4]],
      exp_Yt = [[0], [1]],
      exp_m = None,
      exp_logger = None,
      iteration = 0,
      mem_hist = [],
      step_log = [],
      launches = []\<rparr>"

text \<open>
  The task list, the model and the states that the first two launches of the relaunch
  loop leave, for the learning rate 0.001, the exponent 0.5 and the step constant 2.
\<close>

definition sample_tasks :: "history option \<Rightarrow> task list" where
  "sample_tasks h =
     [DisplayOptimisation (SeqExpLin 1.1 20 None),
      GPflowLogOptimisation (SeqExpLin 1.1 20 None),
      GPflowMultiClassificationTrackerLml (Count 1800 1800) TriggerTime,
      GPflowMultiClassificationTracker (SeqExpLin 1.5 150 (Some 30)) TriggerTime h,
      StoreOptimisationHistory ''hist.pkl'' (SeqExpLin 1.5 600 (Some 30)) TriggerTime,
      Timeout PyInf]"

definition sample_model_at :: "nat \<Rightarrow> nat \<Rightarrow> real list \<Rightarrow> svgp" where
  "sample_model_at s k ps =
     \<lparr>svgp_kern = RBF 784, svgp_kern_fixed = PyBool False, svgp_Z = [[2], [1]],
      svgp_minibatch_size = PyInt 100, svgp_X_rng = RandomState s k,
      svgp_Y_rng = RandomState s k, svgp_W_fixed = False, svgp_params = ps\<rparr>"

definition sample_steps_first :: "step_record list" where
  "sample_steps_first =
     [\<lparr>step_rate = PyFloat 0.001, step_ix = [2, 0], step_iy = [2, 0],
        step_bx = [[2], [0]], step_by = [[0], [0]]\<rparr>,
      \<lparr>step_rate = PyFloat 0.001, step_ix = [0, 1], step_iy = [0, 1],
        step_bx = [[0], [1]], step_by = [[0], [1]]\<rparr>]"

definition sample_launch_first :: launch where
  "sample_launch_first =
     \<lparr>seen_i = FloatIter 1, rate = Finite 0.001, drawn_from = RandomState 5 1, seed = 47,
      run_X_rng = RandomState 47 0, run_Y_rng = RandomState 47 0,
      steps = sample_steps_first\<rparr>"

definition sample_after_first :: world where
  "sample_after_first =
     sample_world
       \<lparr>files := [''hist.pkl'' \<mapsto> Pickled [\<lparr>row_i = 1, row_t = 0\<rparr>, \<lparr>row_i = 2, row_t = 1\<rparr>]],
        np_random := RandomState 5 2,
        run_settings := (run_settings sample_world)(''learning_rate'' \<mapsto> PyFloat 0.001),
        exp_m := Some (sample_model_at 47 2 [0, 0]),
        exp_logger := Some (sample_tasks None),
        iteration := 2,
        mem_hist := [\<lparr>row_i = 1, row_t = 0\<rparr>, \<lparr>row_i = 2, row_t = 1\<rparr>],
        step_log := sample_steps_first,
        launches := [sample_launch_first]\<rparr>"

definition sample_steps_second :: "step_record list" where
  "sample_steps_second =
     [\<lparr>step_rate = PyFloat (0.001 * 2 powr (- 0.5)), step_ix = [1, 2], step_iy = [1, 2],
        step_bx = [[1], [2]], step_by = [[1], [0]]\<rparr>,
      \<lparr>step_rate = PyFloat (0.001 * 2 powr (- 0.5)), step_ix = [2, 0], step_iy = [2, 0],
        step_bx = [[2], [0]], step_by = [[0], [0]]\<rparr>]"

definition sample_launch_second :: launch where
  "sample_launch_second =
     \<lparr>seen_i = Int64Iter 2, rate = Finite (0.001 * 2 powr (- 0.5)),
      drawn_from = RandomState 5 3, seed = 49,
      run_X_rng = RandomState 49 0, run_Y_rng = RandomState 49 0,
      steps = sample_steps_second\<rparr>"

definition sample_after_second :: world where
  "sample_after_second =
     sample_world
       \<lparr>files := [''hist.pkl'' \<mapsto> Pickled [\<lparr>row_i = 1, row_t = 0\<rparr>, \<lparr>row_i = 2, row_t = 1\<rparr>,
                                           \<lparr>row_i = 3, row_t = 0\<rparr>, \<lparr>row_i = 4, row_t = 1\<rparr>]],
        np_random := RandomState 5 4,
        run_settings := (run_settings sample_world)
                          (''learning_rate'' \<mapsto> PyFloat (0.001 * 2 powr (- 0.5))),
        exp_m := Some (sample_model_at 49 2 [0, 0]),
        exp_logger := Some (sample_tasks
                        (Some [\<lparr>row_i = 1, row_t = 0\<rparr>, \<lparr>row_i = 2, row_t = 1\<rparr>])),
        iteration := 4,
        mem_hist := [\<lparr>row_i = 1, row_t = 0\<rparr>, \<lparr>row_i = 2, row_t = 1\<rparr>,
                     \<lparr>row_i = 3, row_t = 0\<rparr>, \<lparr>row_i = 4, row_t = 1\<rparr>],
        step_log := sample_steps_second,
        launches := [sample_launch_first, sample_launch_second]\<rparr>"

section \<open>The fields of the concrete environment\<close>

lemma sample_world_fields:
  "files sample_world = Map.empty"
  "np_random sample_world = RandomState 5 0"
  "hist_path sample_world = ''hist.pkl''"
  "exp_M sample_world = 2"
  "exp_X sample_world = [[0], [1], [2]]"
  "exp_Y sample_world = [[0], [1], [0]]"
  "exp_m sample_world = None"
  "launches sample_world = []"
  by (simp_all add: sample_world_def)

lemma sample_world_settings:
  "run_settings sample_world ''kernel'' = Some (PyStr ''rbf'')"
  "run_settings sample_world ''fix_w'' = Some (PyBool False)"
  "run_settings sample_world ''timeout'' = None"
  "run_settings sample_world ''fixed'' = Some (PyBool False)"
  "run_settings sample_world ''minibatch_size'' = Some (PyInt 100)"
  by (simp_all add: sample_world_def cli_run_settings_def default_namespace_def
      parser_arguments_def dest_of_def is_long_def)

lemma sample_ext_fields:
  "perm_draw sample_ext = (\<lambda>s k n. rev [0..<n])"
  "randint_draw sample_ext = (\<lambda>s k. s + k + 41)"
  "index_draw sample_ext = (\<lambda>s k n mb. [(s + k) mod n, (s + k + 1) mod n])"
  "has_W sample_ext = (\<lambda>k. False)"
  "opt_step sample_ext = (\<lambda>lr batch ps. Inr (0 # ps))"
  "is_due sample_ext = (\<lambda>j k. True)"
  "elapsed sample_ext = (\<lambda>k. real k)"
  by (simp_all add: sample_ext_def)

section \<open>Properties of the learning-rate derivation\<close>

lemma floor_base_positive:
  assumes "0 \<le> i" and "0 < c"
  shows "0 < 1 + (of_int \<lfloor>i / of_int c\<rfloor> :: real)"
proof -
  from assms have "0 \<le> i / of_int c" by simp
  then have "0 \<le> \<lfloor>i / of_int c\<rfloor>" by simp
  then have "(0::real) \<le> of_int \<lfloor>i / of_int c\<rfloor>" by simp
  then show ?thesis by linarith
qed

lemma derive_float_eq:
  assumes "0 \<le> x" and "0 < c"
  shows "derive_learning_rate b p c (FloatIter x)
       = Inr (Finite (b * (1 + of_int \<lfloor>x / of_int c\<rfloor>) powr (- p)))"
  using floor_base_positive[OF assms] assms
  by (simp add: derive_learning_rate_def py_floordiv_def py_pow_def)

text \<open>With the float 1.0 of line 115 the base of the power is 0, 1 or 2.\<close>

lemma float_base_range:
  assumes "c \<noteq> 0"
  shows "py_floordiv 1 c = Inr (if c < 0 then - 1 else if c = 1 then 1 else 0)"
proof -
  have "\<lfloor>(1::real) / of_int c\<rfloor> = (if c < 0 then - 1 else if c = 1 then 1 else 0)"
  proof (cases "c < 0")
    case True
    then have "(1::real) / of_int c < 0" and "- 1 \<le> (1::real) / of_int c"
      by (simp_all add: divide_le_eq field_simps)
    then have "\<lfloor>(1::real) / of_int c\<rfloor> = - 1" by linarith
    with True show ?thesis by simp
  next
    case False
    show ?thesis
    proof (cases "c = 1")
      case True
      then show ?thesis by simp
    next
      case c1: False
      with False assms have "2 \<le> c" by simp
      then have "(1::real) / of_int c < 1" and "0 \<le> (1::real) / of_int c" by simp_all
      then have "\<lfloor>(1::real) / of_int c\<rfloor> = 0" by linarith
      with False c1 show ?thesis by simp
    qed
  qed
  then show ?thesis using assms by (simp add: py_floordiv_def)
qed

lemma wrap64_id: "fits_int64 x \<Longrightarrow> wrap64 x = x"
proof -
  assume "fits_int64 x"
  then have "0 \<le> x + 2 ^ 63" and "x + 2 ^ 63 < 2 ^ 64"
    by (simp_all add: fits_int64_def)
  then have "(x + 2 ^ 63) mod 2 ^ 64 = x + 2 ^ 63" by simp
  then show ?thesis by (simp add: wrap64_def)
qed

lemma derive_int64_eq:
  assumes "0 \<le> n" and "0 < c" and "c < 2 ^ 63" and "1 + n div c < 2 ^ 63"
  shows "derive_learning_rate b p c (Int64Iter n)
       = Inr (Finite (b * (1 + of_int \<lfloor>real_of_int n / real_of_int c\<rfloor>) powr (- p)))"
proof -
  have q0: "0 \<le> n div c" using assms by (simp add: pos_imp_zdiv_nonneg_iff)
  have fc: "fits_int64 c" using assms by (simp add: fits_int64_def)
  have fq: "fits_int64 (n div c)" using q0 assms by (simp add: fits_int64_def)
  have fb: "fits_int64 (1 + n div c)" using q0 assms by (simp add: fits_int64_def)
  have q: "np_floordiv n c = Inr (n div c)"
    using fc assms by (simp add: np_floordiv_def wrap64_id[OF fq])
  have pos: "(0::real) < 1 + of_int (n div c)" using q0 by linarith
  have pw: "np_pow (1 + of_int (n div c)) (- p) = Finite ((1 + of_int (n div c)) powr (- p))"
    using pos by (simp add: np_pow_def)
  have fl: "\<lfloor>real_of_int n / real_of_int c\<rfloor> = n div c"
    by (rule floor_divide_of_int_eq)
  have "derive_learning_rate b p c (Int64Iter n)
      = Inr (float_times (np_pow (1 + of_int (n div c)) (- p)) b)"
    by (simp add: derive_learning_rate_def q wrap64_id[OF fb])
  then show ?thesis
    unfolding pw fl by (simp add: mult.commute)
qed

lemma derive_eq:
  assumes "0 < c" and "within_int64 c it"
  shows "derive_learning_rate b p c it
       = Inr (Finite (b * (1 + of_int \<lfloor>iter_real it / of_int c\<rfloor>) powr (- p)))"
  using assms by (cases it) (simp_all add: derive_float_eq derive_int64_eq)

lemma fold_max_greatest:
  "fold max xs (a::int) \<in> set (a # xs) \<and> (\<forall>x \<in> set (a # xs). x \<le> fold max xs a)"
proof (induction xs arbitrary: a)
  case Nil
  then show ?case by simp
next
  case (Cons y ys)
  have m: "fold max (y # ys) a = fold max ys (max y a)" by simp
  from Cons[of "max y a"] have
    i: "fold max ys (max y a) \<in> set (max y a # ys)" and
    u: "\<forall>x \<in> set (max y a # ys). x \<le> fold max ys (max y a)" by simp_all
  from i have "fold max ys (max y a) \<in> set (a # y # ys)"
    by (auto simp: max_def split: if_splits)
  moreover from u have "\<forall>x \<in> set (a # y # ys). x \<le> fold max ys (max y a)"
    by auto
  ultimately show ?case unfolding m by blast
qed

lemma df_i_max_greatest: "greatest_iteration h i \<Longrightarrow> df_i_max h = Int64Iter i"
proof -
  assume g: "greatest_iteration h i"
  then obtain r rs where h: "h = r # rs"
    by (cases h) (auto simp: greatest_iteration_def)
  define m where "m = fold max (map row_i rs) (row_i r)"
  have "m \<in> set (row_i r # map row_i rs)" and u: "\<forall>x \<in> set (row_i r # map row_i rs). x \<le> m"
    using fold_max_greatest[of "map row_i rs" "row_i r"] by (simp_all add: m_def)
  then have "m \<in> row_i ` set h" by (auto simp: h)
  then have "m \<le> i" using g by (auto simp: greatest_iteration_def)
  moreover have "i \<in> set (row_i r # map row_i rs)"
    using g by (auto simp: greatest_iteration_def h)
  then have "i \<le> m" using u by blast
  ultimately have "m = i" by simp
  then show ?thesis by (simp add: h m_def)
qed

lemma df_i_max_is_greatest: "df_i_max h = Int64Iter i \<Longrightarrow> greatest_iteration h i"
proof -
  assume d: "df_i_max h = Int64Iter i"
  then obtain r rs where h: "h = r # rs" by (cases h) simp_all
  from d h have i: "i = fold max (map row_i rs) (row_i r)" by simp
  have "i \<in> set (row_i r # map row_i rs)" and "\<forall>x \<in> set (row_i r # map row_i rs). x \<le> i"
    using fold_max_greatest[of "map row_i rs" "row_i r"] by (simp_all add: i)
  then show ?thesis by (auto simp: greatest_iteration_def h)
qed

lemma present_iteration:
  "fs p = Some (Pickled h) \<Longrightarrow> max_iteration_at fs p = Inr (df_i_max h)"
  by (simp add: max_iteration_at_def path_exists_def read_pickle_def)

lemma three_powr_minus_half: "3 powr (- (1 / 2)) = 1 / sqrt (3::real)"
  by (simp add: powr_minus powr_half_sqrt inverse_eq_divide)

lemma scenario_value_close: "\<bar>0.001 * 3 powr (- 0.5) - (0.0005774::real)\<bar> < 0.0000001"
proof -
  have lo: "1.732 < sqrt (3::real)"
    by (rule real_less_rsqrt) (simp add: power2_eq_square)
  have hi: "sqrt (3::real) < 1.7321"
    by (rule real_less_lsqrt) (simp_all add: power2_eq_square)
  have pos: "0 < sqrt (3::real)" by simp
  have a: "0.001 / sqrt (3::real) < 0.001 / 1.732"
    using lo by (intro divide_strict_left_mono) simp_all
  have b: "0.001 / 1.7321 < 0.001 / sqrt (3::real)"
    using hi pos by (intro divide_strict_left_mono) simp_all
  have c: "(0.001::real) / 1.732 < 0.0005775" by simp
  have d: "(0.0005773::real) < 0.001 / 1.7321" by simp
  have "0.001 * 3 powr (- 0.5) = 0.001 / sqrt (3::real)"
    using three_powr_minus_half by simp
  then show ?thesis using a b c d by linarith
qed

lemma scenario_history:
  "greatest_iteration
     [\<lparr>row_i = 3600, row_t = 1\<rparr>, \<lparr>row_i = 7200, row_t = 2\<rparr>, \<lparr>row_i = 5400, row_t = 3\<rparr>] 7200"
  by (simp add: greatest_iteration_def)

text \<open>
  Claim C1, as amended. With a history at the history path whose greatest iteration is
  \<open>i \<ge> 0\<close>, a step constant \<open>0 < const < 2^63\<close> and \<open>1 + floor (i / const) < 2^63\<close>, the
  launch reads \<open>i\<close> and derives the rate \<open>lr_base * (1 + floor (i / const)) ^ (- pow)\<close>.
  For \<open>lr_base = 0.001\<close>, \<open>const = 3600\<close>, \<open>pow = 0.5\<close> and a history whose greatest
  iteration is 7200 the rate is \<open>0.001 * 3 ^ (- 0.5)\<close>, within \<open>10^-7\<close> of \<open>0.0005774\<close>.
\<close>

theorem derived_rate_formula:
  "(fs p = Some (Pickled h) \<and> greatest_iteration h i \<and> 0 \<le> i
      \<and> 0 < const \<and> const < 2 ^ 63 \<and> 1 + i div const < 2 ^ 63 \<longrightarrow>
      max_iteration_at fs p = Inr (Int64Iter i)
      \<and> launch_learning_rate lr_base pw const fs p =
          Inr (Finite (lr_base * (1 + of_int \<lfloor>real_of_int i / real_of_int const\<rfloor>) powr (- pw))))
   \<and> launch_learning_rate 0.001 0.5 3600
        [''hist.pkl'' \<mapsto> Pickled [\<lparr>row_i = 3600, row_t = 1\<rparr>, \<lparr>row_i = 7200, row_t = 2\<rparr>,
                                    \<lparr>row_i = 5400, row_t = 3\<rparr>]] ''hist.pkl''
      = Inr (Finite (0.001 * 3 powr (- 0.5)))
   \<and> \<bar>0.001 * 3 powr (- 0.5) - (0.0005774::real)\<bar> < 0.0000001"
proof (intro conjI impI)
  assume a: "fs p = Some (Pickled h) \<and> greatest_iteration h i \<and> 0 \<le> i
      \<and> 0 < const \<and> const < 2 ^ 63 \<and> 1 + i div const < 2 ^ 63"
  then show m: "max_iteration_at fs p = Inr (Int64Iter i)"
    by (simp add: present_iteration df_i_max_greatest)
  have "derive_learning_rate lr_base pw const (Int64Iter i)
      = Inr (Finite (lr_base * (1 + of_int \<lfloor>real_of_int i / real_of_int const\<rfloor>) powr (- pw)))"
    using a by (intro derive_int64_eq) simp_all
  then show "launch_learning_rate lr_base pw const fs p =
          Inr (Finite (lr_base * (1 + of_int \<lfloor>real_of_int i / real_of_int const\<rfloor>) powr (- pw)))"
    by (simp add: launch_learning_rate_def m)
next
  let ?h = "[\<lparr>row_i = 3600, row_t = 1\<rparr>, \<lparr>row_i = 7200, row_t = 2\<rparr>, \<lparr>row_i = 5400, row_t = 3\<rparr>]"
  have m: "max_iteration_at [''hist.pkl'' \<mapsto> Pickled ?h] ''hist.pkl'' = Inr (Int64Iter 7200)"
    by (simp add: present_iteration df_i_max_greatest[OF scenario_history])
  have "derive_learning_rate 0.001 0.5 3600 (Int64Iter 7200) = Inr (Finite (0.001 * 3 powr (- 0.5)))"
    using derive_int64_eq[of 7200 3600 "0.001" "0.5"] by simp
  then show "launch_learning_rate 0.001 0.5 3600 [''hist.pkl'' \<mapsto> Pickled ?h] ''hist.pkl''
      = Inr (Finite (0.001 * 3 powr (- 0.5)))"
    by (simp add: launch_learning_rate_def m)
next
  show "\<bar>0.001 * 3 powr (- 0.5) - (0.0005774::real)\<bar> < 0.0000001"
    by (rule scenario_value_close)
qed

theorem derived_rate_formula_witness:
  "[''hist.pkl'' \<mapsto> Pickled [\<lparr>row_i = 1800, row_t = 1\<rparr>, \<lparr>row_i = 3600, row_t = 2\<rparr>]] ''hist.pkl''
      = Some (Pickled [\<lparr>row_i = 1800, row_t = 1\<rparr>, \<lparr>row_i = 3600, row_t = 2\<rparr>])
   \<and> greatest_iteration [\<lparr>row_i = 1800, row_t = 1\<rparr>, \<lparr>row_i = 3600, row_t = 2\<rparr>] 3600
   \<and> (0::int) \<le> 3600 \<and> (0::int) < 3600 \<and> (3600::int) < 2 ^ 63 \<and> 1 + 3600 div 3600 < (2::int) ^ 63
   \<and> max_iteration_at
        [''hist.pkl'' \<mapsto> Pickled [\<lparr>row_i = 1800, row_t = 1\<rparr>, \<lparr>row_i = 3600, row_t = 2\<rparr>]]
        ''hist.pkl'' = Inr (Int64Iter 3600)
   \<and> launch_learning_rate 0.001 0.5 3600
        [''hist.pkl'' \<mapsto> Pickled [\<lparr>row_i = 1800, row_t = 1\<rparr>, \<lparr>row_i = 3600, row_t = 2\<rparr>]]
        ''hist.pkl'' = Inr (Finite (0.001 * 2 powr (- 0.5)))"
  using derived_rate_formula[of
      "[''hist.pkl'' \<mapsto> Pickled [\<lparr>row_i = 1800, row_t = 1\<rparr>, \<lparr>row_i = 3600, row_t = 2\<rparr>]]"
      "''hist.pkl''" "[\<lparr>row_i = 1800, row_t = 1\<rparr>, \<lparr>row_i = 3600, row_t = 2\<rparr>]"
      3600 3600 "0.001" "0.5"]
  by (simp add: greatest_iteration_def)

text \<open>
  The claim as written fails: with the greatest iteration \<open>2^63 - 1\<close> and the step constant
  1 the sum \<open>1 + i // const\<close> wraps to \<open>- 2^63\<close>, and the rate derived is \<^verbatim>\<open>nan\<close>.
\<close>

theorem derived_rate_counterexample:
  "launch_learning_rate 0.001 0.5 1
      [''hist.pkl'' \<mapsto> Pickled [\<lparr>row_i = 9223372036854775807, row_t = 1\<rparr>]] ''hist.pkl''
     = Inr NaN"
proof -
  have f: "\<lfloor>- (1 / 2 :: real)\<rfloor> = - 1" by linarith
  have "wrap64 (1 + 9223372036854775807) = - 9223372036854775808"
    by (simp add: wrap64_def)
  then show ?thesis
    by (simp add: launch_learning_rate_def present_iteration derive_learning_rate_def
        np_floordiv_def fits_int64_def wrap64_def np_pow_def f)
qed

lemma rate_mono_aux:
  assumes "0 \<le> i1" and "i1 \<le> i2" and "0 \<le> b" and "0 < c" and "0 \<le> (p::real)"
  shows "(b::real) * (1 + of_int \<lfloor>i2 / of_int c\<rfloor>) powr (- p)
       \<le> b * (1 + of_int \<lfloor>i1 / of_int c\<rfloor>) powr (- p)"
proof -
  have "i1 / of_int c \<le> i2 / of_int c"
    using assms by (simp add: divide_right_mono)
  then have "\<lfloor>i1 / of_int c\<rfloor> \<le> \<lfloor>i2 / of_int c\<rfloor>" by (rule floor_mono)
  then have le: "1 + (of_int \<lfloor>i1 / of_int c\<rfloor> :: real) \<le> 1 + of_int \<lfloor>i2 / of_int c\<rfloor>"
    by simp
  have pos: "0 < 1 + (of_int \<lfloor>i1 / of_int c\<rfloor> :: real)"
    using assms by (intro floor_base_positive)
  have "(1 + of_int \<lfloor>i2 / of_int c\<rfloor>) powr (- p) \<le> (1 + of_int \<lfloor>i1 / of_int c\<rfloor>) powr (- p)"
    using powr_mono2'[of "- p" "1 + of_int \<lfloor>i1 / of_int c\<rfloor>" "1 + of_int \<lfloor>i2 / of_int c\<rfloor>"] le pos assms
    by simp
  then show ?thesis using assms by (simp add: mult_left_mono)
qed

text \<open>
  Claim C4, as amended. For integers \<open>0 \<le> i1 < i2\<close> read from a history, with
  \<open>lr_base > 0\<close>, \<open>0 < const < 2^63\<close>, \<open>pow \<ge> 0\<close> and \<open>1 + floor (i2 / const) < 2^63\<close>, the
  derivation returns a finite rate at both and the rate at \<open>i2\<close> is at most the rate
  at \<open>i1\<close>.
\<close>

theorem rate_monotone:
  assumes "0 \<le> i1" and "i1 < i2" and "0 < lr_base" and "0 < const" and "0 \<le> pw"
    and "const < 2 ^ 63" and "1 + i2 div const < 2 ^ 63"
  shows "\<exists>r1 r2. derive_learning_rate lr_base pw const (Int64Iter i1) = Inr (Finite r1)
           \<and> derive_learning_rate lr_base pw const (Int64Iter i2) = Inr (Finite r2)
           \<and> r2 \<le> r1"
proof -
  have "i1 div const \<le> i2 div const"
    using assms by (intro zdiv_mono1) simp_all
  then have b1: "1 + i1 div const < 2 ^ 63" using assms by simp
  have a: "(0::real) \<le> of_int i1" "(of_int i1 :: real) \<le> of_int i2"
    using assms by simp_all
  have e1: "derive_learning_rate lr_base pw const (Int64Iter i1)
      = Inr (Finite (lr_base * (1 + of_int \<lfloor>real_of_int i1 / real_of_int const\<rfloor>) powr (- pw)))"
    using assms b1 by (intro derive_int64_eq) simp_all
  have e2: "derive_learning_rate lr_base pw const (Int64Iter i2)
      = Inr (Finite (lr_base * (1 + of_int \<lfloor>real_of_int i2 / real_of_int const\<rfloor>) powr (- pw)))"
    using assms by (intro derive_int64_eq) simp_all
  show ?thesis
    using rate_mono_aux[of "of_int i1" "of_int i2" lr_base const pw] a assms
    by (simp add: e1 e2)
qed

theorem rate_monotone_witness:
  "(0::int) \<le> 0 \<and> (0::int) < 7200 \<and> (0::real) < 0.001 \<and> (0::int) < 3600 \<and> (0::real) \<le> 0.5
   \<and> (3600::int) < 2 ^ 63 \<and> 1 + 7200 div 3600 < (2::int) ^ 63
   \<and> (\<exists>r1 r2. derive_learning_rate 0.001 0.5 3600 (Int64Iter 0) = Inr (Finite r1)
           \<and> derive_learning_rate 0.001 0.5 3600 (Int64Iter 7200) = Inr (Finite r2)
           \<and> r2 \<le> r1)"
  using rate_monotone[of 0 7200 "0.001" 3600 "0.5"] by simp

text \<open>
  The claim as written fails: with the step constant 1 the rate at \<open>i1 = 0\<close> is \<open>lr_base\<close>
  and the rate at \<open>i2 = 2^63 - 1\<close> is \<^verbatim>\<open>nan\<close>, which is not at most any number.
\<close>

theorem rate_monotone_counterexample:
  "derive_learning_rate 0.001 0.5 1 (Int64Iter 0) = Inr (Finite 0.001)
   \<and> derive_learning_rate 0.001 0.5 1 (Int64Iter 9223372036854775807) = Inr NaN"
proof -
  have f: "\<lfloor>- (1 / 2 :: real)\<rfloor> = - 1" by linarith
  have a: "derive_learning_rate 0.001 0.5 1 (Int64Iter 0) = Inr (Finite 0.001)"
    using derive_int64_eq[of 0 1 "0.001" "0.5"] by simp
  have b: "derive_learning_rate 0.001 0.5 1 (Int64Iter 9223372036854775807) = Inr NaN"
    by (simp add: derive_learning_rate_def np_floordiv_def fits_int64_def wrap64_def
        np_pow_def f)
  from a b show ?thesis by simp
qed

lemma absent_iteration: "fs p = None \<Longrightarrow> max_iteration_at fs p = Inr (FloatIter 1)"
  by (simp add: max_iteration_at_def path_exists_def)

text \<open>
  Claim C3, as amended. With no file at the history path the derivation takes \<open>i = 1\<close>
  (line 115), and the launch runs at exactly \<open>lr_base\<close> whenever the step constant is
  greater than 1, as the default 3600 is.
\<close>

theorem absent_history_rate:
  assumes "fs p = None" and "1 < const"
  shows "max_iteration_at fs p = Inr (FloatIter 1)
       \<and> launch_learning_rate lr_base pw const fs p = Inr (Finite lr_base)"
proof -
  have "(1::real) / of_int const < 1" "(0::real) \<le> 1 / of_int const"
    using assms by simp_all
  then have "\<lfloor>(1::real) / of_int const\<rfloor> = 0" by linarith
  then have "derive_learning_rate lr_base pw const (FloatIter 1) = Inr (Finite lr_base)"
    using assms derive_float_eq[of 1 const lr_base pw] by simp
  then show ?thesis using assms
    by (simp add: launch_learning_rate_def absent_iteration)
qed

theorem absent_history_rate_witness:
  "(Map.empty :: filesystem) ''hist.pkl'' = None \<and> (1::int) < 3600
   \<and> max_iteration_at Map.empty ''hist.pkl'' = Inr (FloatIter 1)
   \<and> launch_learning_rate 0.001 0.5 3600 Map.empty ''hist.pkl'' = Inr (Finite 0.001)"
  using absent_history_rate[of Map.empty "''hist.pkl''" 3600 "0.001" "0.5"] by simp

text \<open>
  The claim as written fails: the iteration taken is not 0, and with the step constant 1
  the first launch does not run at \<open>lr_base\<close>.
\<close>

theorem absent_history_counterexample:
  "max_iteration_at Map.empty ''hist.pkl'' \<noteq> Inr (FloatIter 0)
   \<and> launch_learning_rate 0.001 0.5 1 Map.empty ''hist.pkl'' \<noteq> Inr (Finite 0.001)"
proof -
  have i: "max_iteration_at Map.empty ''hist.pkl'' = Inr (FloatIter 1)"
    by (simp add: absent_iteration)
  have "derive_learning_rate 0.001 0.5 1 (FloatIter 1) = Inr (Finite (0.001 * 2 powr (- 0.5)))"
    using derive_float_eq[of 1 1 "0.001" "0.5"] by simp
  then have r: "launch_learning_rate 0.001 0.5 1 Map.empty ''hist.pkl''
      = Inr (Finite (0.001 * 2 powr (- 0.5)))"
    using i by (simp add: launch_learning_rate_def)
  have "2 powr (- (1 / 2)) = 1 / sqrt (2::real)"
    by (simp add: powr_minus powr_half_sqrt inverse_eq_divide)
  moreover have "1 < sqrt (2::real)" by simp
  ultimately have "2 powr (- (1 / 2)) < (1::real)" by simp
  then have "0.001 * 2 powr (- 0.5) \<noteq> (0.001::real)" by simp
  then show ?thesis using i r by simp
qed

section \<open>Loading the history\<close>

lemma load_absent: "\<not> path_exists fs p \<Longrightarrow> load_old_hist fs p = Inr None"
  by (simp add: load_old_hist_def)

lemma load_failure:
  "path_exists fs p \<Longrightarrow> read_pickle fs p = Inl err \<Longrightarrow> load_old_hist fs p = Inl err"
  by (simp add: load_old_hist_def)

lemma max_iteration_default:
  "\<not> path_exists fs p \<Longrightarrow> max_iteration_at fs p = Inr (FloatIter 1)"
  by (simp add: max_iteration_at_def)

lemma max_iteration_failure:
  "path_exists fs p \<Longrightarrow> read_pickle fs p = Inl err \<Longrightarrow> max_iteration_at fs p = Inl err"
  by (simp add: max_iteration_at_def)

lemma launch_once_load_failure:
  "max_iteration_at (files w) (hist_path w) = Inl err \<Longrightarrow>
   launch_once e lr_base pw const w = Inl (err, w)"
  by (simp add: launch_once_def)

text \<open>
  Claim C5, as amended. Loading fails soft when \<^verbatim>\<open>os.path.exists\<close> reports no file at the
  history path: no file is there, or a file is there that cannot be examined. Loading
  then yields no history (\<open>None\<close>), the logger is set up and the derivation falls back to
  its default iteration. With a file that \<^verbatim>\<open>os.path.exists\<close> reports and that cannot be
  opened or unpickled, the error is the result of loading, of \<^verbatim>\<open>setup_logger\<close>, of the
  derivation and of the relaunch loop, with the state unchanged: UnpicklingError for
  bytes that do not unpickle, EOFError for a pickle cut short, IOError for a file that
  cannot be opened.
\<close>

theorem history_load_soft_or_fatal:
  "(files w (hist_path w) = None \<or> (\<exists>h. files w (hist_path w) = Some (Unreachable h)) \<longrightarrow>
      load_old_hist (files w) (hist_path w) = Inr None
      \<and> setup_logger w = Inr (w\<lparr>exp_logger := Some (logger_tasks w None)\<rparr>)
      \<and> max_iteration_at (files w) (hist_path w) = Inr (FloatIter 1))
   \<and> (files w (hist_path w) = Some f \<and> stat_succeeds f
        \<and> read_pickle (files w) (hist_path w) = Inl err \<longrightarrow>
      load_old_hist (files w) (hist_path w) = Inl err
      \<and> setup_logger w = Inl (err, w)
      \<and> max_iteration_at (files w) (hist_path w) = Inl err
      \<and> launch_learning_rate lr_base pw const (files w) (hist_path w) = Inl err
      \<and> training_loop e lr_base pw const (Suc n) w = Inl (err, w))
   \<and> (files w (hist_path w) = Some Garbage \<longrightarrow>
        read_pickle (files w) (hist_path w) = Inl UnpicklingError)
   \<and> (files w (hist_path w) = Some Truncated \<longrightarrow>
        read_pickle (files w) (hist_path w) = Inl EOFError)
   \<and> (files w (hist_path w) = Some Unreadable \<longrightarrow>
        read_pickle (files w) (hist_path w) = Inl IOError)"
proof (intro conjI impI)
  assume "files w (hist_path w) = None \<or> (\<exists>h. files w (hist_path w) = Some (Unreachable h))"
  then have n: "\<not> path_exists (files w) (hist_path w)"
    by (auto simp: path_exists_def)
  show l: "load_old_hist (files w) (hist_path w) = Inr None"
    using n by (rule load_absent)
  show "setup_logger w = Inr (w\<lparr>exp_logger := Some (logger_tasks w None)\<rparr>)"
    by (simp add: setup_logger_def l)
  show "max_iteration_at (files w) (hist_path w) = Inr (FloatIter 1)"
    using n by (rule max_iteration_default)
next
  assume a: "files w (hist_path w) = Some f \<and> stat_succeeds f
        \<and> read_pickle (files w) (hist_path w) = Inl err"
  then have p: "path_exists (files w) (hist_path w)"
    by (simp add: path_exists_def)
  from a have r: "read_pickle (files w) (hist_path w) = Inl err" by simp
  show l: "load_old_hist (files w) (hist_path w) = Inl err"
    using p r by (rule load_failure)
  show "setup_logger w = Inl (err, w)"
    by (simp add: setup_logger_def l)
  show m: "max_iteration_at (files w) (hist_path w) = Inl err"
    using p r by (rule max_iteration_failure)
  show "launch_learning_rate lr_base pw const (files w) (hist_path w) = Inl err"
    by (simp add: launch_learning_rate_def m)
  show "training_loop e lr_base pw const (Suc n) w = Inl (err, w)"
    by (simp add: launch_once_load_failure[OF m])
next
  assume "files w (hist_path w) = Some Garbage"
  then show "read_pickle (files w) (hist_path w) = Inl UnpicklingError"
    by (simp add: read_pickle_def)
next
  assume "files w (hist_path w) = Some Truncated"
  then show "read_pickle (files w) (hist_path w) = Inl EOFError"
    by (simp add: read_pickle_def)
next
  assume "files w (hist_path w) = Some Unreadable"
  then show "read_pickle (files w) (hist_path w) = Inl IOError"
    by (simp add: read_pickle_def)
qed

theorem history_load_witness:
  "files sample_world (hist_path sample_world) = None
   \<and> setup_logger sample_world
       = Inr (sample_world\<lparr>exp_logger := Some (logger_tasks sample_world None)\<rparr>)
   \<and> max_iteration_at (files sample_world) (hist_path sample_world) = Inr (FloatIter 1)
   \<and> files (sample_world\<lparr>files := [''hist.pkl'' \<mapsto> Unreachable []]\<rparr>)
        (hist_path (sample_world\<lparr>files := [''hist.pkl'' \<mapsto> Unreachable []]\<rparr>))
       = Some (Unreachable [])
   \<and> load_old_hist (files (sample_world\<lparr>files := [''hist.pkl'' \<mapsto> Unreachable []]\<rparr>))
        (hist_path (sample_world\<lparr>files := [''hist.pkl'' \<mapsto> Unreachable []]\<rparr>)) = Inr None
   \<and> files (sample_world\<lparr>files := [''hist.pkl'' \<mapsto> Truncated]\<rparr>)
        (hist_path (sample_world\<lparr>files := [''hist.pkl'' \<mapsto> Truncated]\<rparr>)) = Some Truncated
   \<and> stat_succeeds Truncated
   \<and> read_pickle (files (sample_world\<lparr>files := [''hist.pkl'' \<mapsto> Truncated]\<rparr>))
        (hist_path (sample_world\<lparr>files := [''hist.pkl'' \<mapsto> Truncated]\<rparr>)) = Inl EOFError
   \<and> setup_logger (sample_world\<lparr>files := [''hist.pkl'' \<mapsto> Truncated]\<rparr>)
       = Inl (EOFError, sample_world\<lparr>files := [''hist.pkl'' \<mapsto> Truncated]\<rparr>)
   \<and> launch_learning_rate 0.001 0.5 3600
        (files (sample_world\<lparr>files := [''hist.pkl'' \<mapsto> Truncated]\<rparr>))
        (hist_path (sample_world\<lparr>files := [''hist.pkl'' \<mapsto> Truncated]\<rparr>)) = Inl EOFError
   \<and> training_loop sample_ext 0.001 0.5 3600 (Suc 0)
        (sample_world\<lparr>files := [''hist.pkl'' \<mapsto> Truncated]\<rparr>)
       = Inl (EOFError, sample_world\<lparr>files := [''hist.pkl'' \<mapsto> Truncated]\<rparr>)
   \<and> files (sample_world\<lparr>files := [''hist.pkl'' \<mapsto> Garbage]\<rparr>)
        (hist_path (sample_world\<lparr>files := [''hist.pkl'' \<mapsto> Garbage]\<rparr>)) = Some Garbage
   \<and> stat_succeeds Garbage
   \<and> setup_logger (sample_world\<lparr>files := [''hist.pkl'' \<mapsto> Garbage]\<rparr>)
       = Inl (UnpicklingError, sample_world\<lparr>files := [''hist.pkl'' \<mapsto> Garbage]\<rparr>)
   \<and> files (sample_world\<lparr>files := [''hist.pkl'' \<mapsto> Unreadable]\<rparr>)
        (hist_path (sample_world\<lparr>files := [''hist.pkl'' \<mapsto> Unreadable]\<rparr>)) = Some Unreadable
   \<and> stat_succeeds Unreadable
   \<and> setup_logger (sample_world\<lparr>files := [''hist.pkl'' \<mapsto> Unreadable]\<rparr>)
       = Inl (IOError, sample_world\<lparr>files := [''hist.pkl'' \<mapsto> Unreadable]\<rparr>)"
  using history_load_soft_or_fatal[of sample_world Truncated EOFError "0.001" "0.5" 3600 sample_ext 0]
    history_load_soft_or_fatal[of "sample_world\<lparr>files := [''hist.pkl'' \<mapsto> Unreachable []]\<rparr>"
      Truncated EOFError "0.001" "0.5" 3600 sample_ext 0]
    history_load_soft_or_fatal[of "sample_world\<lparr>files := [''hist.pkl'' \<mapsto> Truncated]\<rparr>"
      Truncated EOFError "0.001" "0.5" 3600 sample_ext 0]
    history_load_soft_or_fatal[of "sample_world\<lparr>files := [''hist.pkl'' \<mapsto> Garbage]\<rparr>"
      Garbage UnpicklingError "0.001" "0.5" 3600 sample_ext 0]
    history_load_soft_or_fatal[of "sample_world\<lparr>files := [''hist.pkl'' \<mapsto> Unreadable]\<rparr>"
      Unreadable IOError "0.001" "0.5" 3600 sample_ext 0]
  by (simp add: sample_world_fields)

text \<open>
  The claim as written fails: a history that is at the path but cannot be examined is
  taken for no history. Reading it would raise, yet loading yields \<open>None\<close> and the launch
  runs at \<open>lr_base\<close>, as if the 7200 iterations on record had not been made.
\<close>

theorem history_load_counterexample:
  "read_pickle [''hist.pkl'' \<mapsto> Unreachable [\<lparr>row_i = 7200, row_t = 1\<rparr>]] ''hist.pkl''
      = Inl IOError
   \<and> load_old_hist [''hist.pkl'' \<mapsto> Unreachable [\<lparr>row_i = 7200, row_t = 1\<rparr>]] ''hist.pkl''
      = Inr None
   \<and> max_iteration_at [''hist.pkl'' \<mapsto> Unreachable [\<lparr>row_i = 7200, row_t = 1\<rparr>]] ''hist.pkl''
      = Inr (FloatIter 1)
   \<and> launch_learning_rate 0.001 0.5 3600
        [''hist.pkl'' \<mapsto> Unreachable [\<lparr>row_i = 7200, row_t = 1\<rparr>]] ''hist.pkl''
      = Inr (Finite 0.001)"
proof -
  let ?fs = "[''hist.pkl'' \<mapsto> Unreachable [\<lparr>row_i = 7200, row_t = 1\<rparr>]]"
  have n: "\<not> path_exists ?fs ''hist.pkl''" by (simp add: path_exists_def)
  have m: "max_iteration_at ?fs ''hist.pkl'' = Inr (FloatIter 1)"
    using n by (rule max_iteration_default)
  have "\<lfloor>(1::real) / 3600\<rfloor> = 0" by linarith
  then have "derive_learning_rate 0.001 0.5 3600 (FloatIter 1) = Inr (Finite 0.001)"
    using derive_float_eq[of 1 3600 "0.001" "0.5"] by simp
  then have "launch_learning_rate 0.001 0.5 3600 ?fs ''hist.pkl'' = Inr (Finite 0.001)"
    by (simp add: launch_learning_rate_def m)
  moreover have "read_pickle ?fs ''hist.pkl'' = Inl IOError"
    by (simp add: read_pickle_def)
  ultimately show ?thesis using m load_absent[OF n] by simp
qed

section \<open>Unknown kernel names\<close>

text \<open>
  Claim C6. For a kernel name that is none of \<^verbatim>\<open>rbf\<close>, \<^verbatim>\<open>poly\<close>, \<^verbatim>\<open>rbfpoly\<close>, \<^verbatim>\<open>conv\<close>,
  \<^verbatim>\<open>wconv\<close>, \<^verbatim>\<open>setup_model\<close> raises NotImplementedError and so does the initialisation
  that calls it; the state that comes with the failure is the state before the call, so
  no model has been constructed.
\<close>

theorem unknown_kernel_rejected:
  assumes "run_settings w ''kernel'' = Some name"
    and "name \<notin> {PyStr ''rbf'', PyStr ''poly'', PyStr ''rbfpoly'', PyStr ''conv'', PyStr ''wconv''}"
  shows "setup_model e w = Inl (NotImplementedError, w)
       \<and> exp_setup e w = Inl (NotImplementedError, w)"
proof -
  have k: "choose_kernel e w name = Inl NotImplementedError"
    using assms(2) by (simp add: choose_kernel_def)
  have "setup_model e w = Inl (NotImplementedError, w)"
    using assms(1) k by (simp add: setup_model_def dict_item_def)
  then show ?thesis by (simp add: exp_setup_def)
qed

theorem unknown_kernel_witness:
  "run_settings (sample_world\<lparr>run_settings := [''kernel'' \<mapsto> PyStr ''linear'']\<rparr>) ''kernel''
     = Some (PyStr ''linear'')
   \<and> PyStr ''linear'' \<notin> {PyStr ''rbf'', PyStr ''poly'', PyStr ''rbfpoly'', PyStr ''conv'', PyStr ''wconv''}
   \<and> setup_model sample_ext (sample_world\<lparr>run_settings := [''kernel'' \<mapsto> PyStr ''linear'']\<rparr>)
       = Inl (NotImplementedError, sample_world\<lparr>run_settings := [''kernel'' \<mapsto> PyStr ''linear'']\<rparr>)"
  using unknown_kernel_rejected[of "sample_world\<lparr>run_settings := [''kernel'' \<mapsto> PyStr ''linear'']\<rparr>"
      "PyStr ''linear''" sample_ext]
  by simp

section \<open>The order of dispatch\<close>

lemma enumerate_filter_map:
  "map snd (filter (\<lambda>jt. due (fst jt)) (enumerate m ts))
     = map (\<lambda>j. ts ! (j - m)) (filter due [m..<m + length ts])"
proof (induction ts arbitrary: m)
  case Nil
  then show ?case by simp
next
  case (Cons t ts)
  have "m < Suc m + length ts" by simp
  then have "[m..<Suc m + length ts] = m # [Suc m..<Suc m + length ts]"
    by (rule upt_conv_Cons)
  moreover have "m + length (t # ts) = Suc m + length ts" by simp
  ultimately have upt: "[m..<m + length (t # ts)] = m # [Suc m..<Suc m + length ts]"
    by metis
  have shift: "map (\<lambda>j. (t # ts) ! (j - m)) (filter due [Suc m..<Suc m + length ts])
      = map (\<lambda>j. ts ! (j - Suc m)) (filter due [Suc m..<Suc m + length ts])"
    by (rule map_cong) (auto simp: nth_Cons')
  show ?case
    unfolding upt using Cons[of "Suc m"] shift by simp
qed

lemma dispatch_positions:
  "dispatch due ts = map (\<lambda>j. ts ! j) (filter due [0..<length ts])"
  using enumerate_filter_map[of due 0 ts] by (simp add: dispatch_def)

lemma filter_upt_strict: "sorted_wrt (<) (filter due [0..<n])"
  by (simp add: sorted_wrt_filter)

lemma position_order:
  assumes "a < length js" and "b < length js" and "sorted_wrt (<) js"
    and "js ! a < (js ! b :: nat)"
  shows "a < b"
proof (rule ccontr)
  assume "\<not> a < b"
  then have "b \<le> a" by simp
  then have "js ! b \<le> (js ! a :: nat)"
  proof (cases "b = a")
    case True then show ?thesis by simp
  next
    case False
    with \<open>b \<le> a\<close> have "b < a" by simp
    then have "js ! b < js ! a" using assms by (simp add: sorted_wrt_nth_less)
    then show ?thesis by simp
  qed
  with assms show False by simp
qed

lemma logger_length: "length (logger_tasks w h) = 6"
  by (simp add: logger_tasks_def)

lemma logger_kinds:
  assumes "j < 6"
  shows "(is_metric_logging (logger_tasks w h ! j) \<longleftrightarrow> j = 1)
       \<and> (is_history_persistence (logger_tasks w h ! j) \<longleftrightarrow> j = 4)
       \<and> (is_timeout (logger_tasks w h ! j) \<longleftrightarrow> j = 5)"
proof -
  from assms have "j = 0 \<or> j = 1 \<or> j = 2 \<or> j = 3 \<or> j = 4 \<or> j = 5" by arith
  then show ?thesis by (auto simp: logger_tasks_def)
qed

lemma dispatch_six:
  "dispatch due [t0, t1, t2, t3, t4, t5]
     = (if due 0 then [t0] else []) @ (if due 1 then [t1] else [])
       @ (if due 2 then [t2] else []) @ (if due 3 then [t3] else [])
       @ (if due 4 then [t4] else []) @ (if due 5 then [t5] else [])"
  by (simp add: dispatch_def eval_nat_numeral)

lemma fire_all_append:
  "fire_all e k (xs @ ys) s =
     (case fire_all e k xs s of Inl f \<Rightarrow> Inl f | Inr s' \<Rightarrow> fire_all e k ys s')"
  by (induction xs arbitrary: s) (simp_all split: sum.splits)

text \<open>
  When the metric task and the persistence task are both due, the history written in a
  step has the row logged in that step.
\<close>

lemma log_before_store:
  assumes "due 1" and "due 4"
    and "fire_all e k (dispatch due (logger_tasks w h)) (v, False) = Inr (v', stop)"
  shows "files v' (hist_path w)
       = Some (Pickled (mem_hist v @ [\<lparr>row_i = int (iteration v), row_t = elapsed e k\<rparr>]))"
proof -
  let ?row = "\<lparr>row_i = int (iteration v), row_t = elapsed e k\<rparr>"
  let ?v1 = "v\<lparr>mem_hist := mem_hist v @ [?row]\<rparr>"
  have a: "fire_all e k (if due 0 then [DisplayOptimisation (SeqExpLin 1.1 20 None)] else [])
      (v, False) = Inr (v, False)" by simp
  have b: "fire_all e k [GPflowLogOptimisation (SeqExpLin 1.1 20 None)] (v, False)
      = Inr (?v1, False)" by simp
  have c: "fire_all e k (if due 2 then
      [GPflowMultiClassificationTrackerLml (Count 1800 1800) TriggerTime] else [])
      (?v1, False) = Inr (?v1, False)" by simp
  have d: "fire_all e k (if due 3 then
      [GPflowMultiClassificationTracker (SeqExpLin 1.5 150 (Some 30)) TriggerTime h] else [])
      (?v1, False) = Inr (?v1, False)" by simp
  from assms have "fire_all e k
      ([StoreOptimisationHistory (hist_path w) (SeqExpLin 1.5 600 (Some 30)) TriggerTime]
       @ (if due 5 then [Timeout (dict_get (run_settings w) ''timeout'' PyInf)] else []))
      (?v1, False) = Inr (v', stop)"
    unfolding logger_tasks_def dispatch_six
    by (simp only: fire_all_append a b c d if_True sum.case append_assoc)
  then obtain fs where
    s: "store_history (files v) (hist_path w) (mem_hist v @ [?row]) = Inr fs"
    and r: "fire_all e k (if due 5 then
        [Timeout (dict_get (run_settings w) ''timeout'' PyInf)] else [])
        (?v1\<lparr>files := fs\<rparr>, False) = Inr (v', stop)"
    by (auto split: sum.splits)
  from s have "fs (hist_path w) = Some (Pickled (mem_hist v @ [?row]))"
    by (auto simp: store_history_def split: option.splits if_splits)
  moreover from r have "files v' = fs" by (auto split: if_splits)
  ultimately show ?thesis by simp
qed

text \<open>
  Claim C7. The task list that \<^verbatim>\<open>setup_logger\<close> builds has six tasks, with the
  metric-logging task at position 1, the history-persistence task at position 4 and the
  timeout task at position 5, and no other task of these kinds. At every step the tasks
  dispatched are the due tasks of the list in the order of the list: every due task is
  dispatched, and in the dispatched list the metric-logging task comes before the
  history-persistence task, which comes before the timeout task. When the first two are
  due in a step, the history written in that step has the row logged in that step.
\<close>

theorem dispatch_order:
  assumes "setup_logger w = Inr w'"
  shows "\<exists>ts. exp_logger w' = Some ts \<and> length ts = 6
           \<and> is_metric_logging (ts ! 1) \<and> is_history_persistence (ts ! 4)
           \<and> is_timeout (ts ! 5)
           \<and> (\<forall>j < 6. (is_metric_logging (ts ! j) \<longrightarrow> j = 1)
                 \<and> (is_history_persistence (ts ! j) \<longrightarrow> j = 4)
                 \<and> (is_timeout (ts ! j) \<longrightarrow> j = 5))
           \<and> dispatch due ts = map (\<lambda>j. ts ! j) (filter due [0..<6])
           \<and> (\<forall>j < 6. due j \<longrightarrow> ts ! j \<in> set (dispatch due ts))
           \<and> (\<forall>a b. a < length (dispatch due ts) \<and> b < length (dispatch due ts)
                 \<and> is_metric_logging (dispatch due ts ! a)
                 \<and> is_history_persistence (dispatch due ts ! b) \<longrightarrow> a < b)
           \<and> (\<forall>a b. a < length (dispatch due ts) \<and> b < length (dispatch due ts)
                 \<and> is_history_persistence (dispatch due ts ! a)
                 \<and> is_timeout (dispatch due ts ! b) \<longrightarrow> a < b)
           \<and> (\<forall>e k v v' stop. due 1 \<and> due 4
                 \<and> fire_all e k (dispatch due ts) (v, False) = Inr (v', stop) \<longrightarrow>
                 files v' (hist_path w)
                   = Some (Pickled (mem_hist v @
                       [\<lparr>row_i = int (iteration v), row_t = elapsed e k\<rparr>])))"
proof -
  from assms obtain h where w': "w' = w\<lparr>exp_logger := Some (logger_tasks w h)\<rparr>"
    by (auto simp: setup_logger_def split: sum.splits)
  define ts where "ts = logger_tasks w h"
  define js where "js = filter due [0..<6]"
  have len: "length ts = 6" by (simp add: ts_def logger_length)
  have ds: "dispatch due ts = map (\<lambda>j. ts ! j) js"
    by (simp add: js_def dispatch_positions len)
  have sorted: "sorted_wrt (<) js" by (simp add: js_def filter_upt_strict)
  have inb: "\<And>a. a < length js \<Longrightarrow> js ! a < 6"
  proof -
    fix a assume "a < length js"
    then have "js ! a \<in> set js" by simp
    then show "js ! a < 6" by (simp add: js_def)
  qed
  have kinds: "\<And>j. j < 6 \<Longrightarrow>
      (is_metric_logging (ts ! j) \<longleftrightarrow> j = 1)
      \<and> (is_history_persistence (ts ! j) \<longleftrightarrow> j = 4)
      \<and> (is_timeout (ts ! j) \<longleftrightarrow> j = 5)"
    unfolding ts_def by (rule logger_kinds)
  have k1: "is_metric_logging (ts ! 1)" using kinds[of 1] by simp
  have k4: "is_history_persistence (ts ! 4)" using kinds[of 4] by simp
  have k5: "is_timeout (ts ! 5)" using kinds[of 5] by simp
  have only: "\<forall>j < 6. (is_metric_logging (ts ! j) \<longrightarrow> j = 1)
                 \<and> (is_history_persistence (ts ! j) \<longrightarrow> j = 4)
                 \<and> (is_timeout (ts ! j) \<longrightarrow> j = 5)"
    using kinds by simp
  have eq: "dispatch due ts = map (\<lambda>j. ts ! j) (filter due [0..<6])"
    using ds by (simp add: js_def)
  have all: "\<forall>j < 6. due j \<longrightarrow> ts ! j \<in> set (dispatch due ts)"
  proof (intro allI impI)
    fix j assume "j < 6" and "due j"
    then have "j \<in> set js" by (simp add: js_def)
    then show "ts ! j \<in> set (dispatch due ts)" by (simp add: ds)
  qed
  have one: "\<forall>a b. a < length (dispatch due ts) \<and> b < length (dispatch due ts)
                 \<and> is_metric_logging (dispatch due ts ! a)
                 \<and> is_history_persistence (dispatch due ts ! b) \<longrightarrow> a < b"
  proof (intro allI impI)
    fix a b
    assume h: "a < length (dispatch due ts) \<and> b < length (dispatch due ts)
                 \<and> is_metric_logging (dispatch due ts ! a)
                 \<and> is_history_persistence (dispatch due ts ! b)"
    then have la: "a < length js" and lb: "b < length js" by (simp_all add: ds)
    from h la lb have "js ! a = 1" "js ! b = 4"
      using kinds[OF inb[OF la]] kinds[OF inb[OF lb]] by (simp_all add: ds)
    then have "js ! a < js ! b" by simp
    then show "a < b" using la lb sorted position_order by blast
  qed
  have two: "\<forall>a b. a < length (dispatch due ts) \<and> b < length (dispatch due ts)
                 \<and> is_history_persistence (dispatch due ts ! a)
                 \<and> is_timeout (dispatch due ts ! b) \<longrightarrow> a < b"
  proof (intro allI impI)
    fix a b
    assume h: "a < length (dispatch due ts) \<and> b < length (dispatch due ts)
                 \<and> is_history_persistence (dispatch due ts ! a)
                 \<and> is_timeout (dispatch due ts ! b)"
    then have la: "a < length js" and lb: "b < length js" by (simp_all add: ds)
    from h la lb have "js ! a = 4" "js ! b = 5"
      using kinds[OF inb[OF la]] kinds[OF inb[OF lb]] by (simp_all add: ds)
    then have "js ! a < js ! b" by simp
    then show "a < b" using la lb sorted position_order by blast
  qed
  have run: "\<forall>e k v v' stop. due 1 \<and> due 4
                 \<and> fire_all e k (dispatch due ts) (v, False) = Inr (v', stop) \<longrightarrow>
                 files v' (hist_path w)
                   = Some (Pickled (mem_hist v @
                       [\<lparr>row_i = int (iteration v), row_t = elapsed e k\<rparr>]))"
    unfolding ts_def using log_before_store by blast
  have lg: "exp_logger w' = Some ts" by (simp add: w' ts_def)
  show ?thesis
    by (intro exI[of _ ts] conjI lg len k1 k4 k5 only eq all one two run)
qed

lemma sample_setup_logger:
  "setup_logger sample_world
      = Inr (sample_world\<lparr>exp_logger := Some (logger_tasks sample_world None)\<rparr>)"
  by (simp add: setup_logger_def load_absent path_exists_def sample_world_fields)

lemma sample_dispatch:
  "dispatch (\<lambda>j. j \<noteq> 2) (logger_tasks sample_world None)
     = [DisplayOptimisation (SeqExpLin 1.1 20 None),
        GPflowLogOptimisation (SeqExpLin 1.1 20 None),
        GPflowMultiClassificationTracker (SeqExpLin 1.5 150 (Some 30)) TriggerTime None,
        StoreOptimisationHistory ''hist.pkl'' (SeqExpLin 1.5 600 (Some 30)) TriggerTime,
        Timeout PyInf]"
  by (simp add: logger_tasks_def dispatch_six sample_world_fields sample_world_settings
      dict_get_def)

lemma sample_fire_all:
  "fire_all sample_ext 0 (dispatch (\<lambda>j. j \<noteq> 2) (logger_tasks sample_world None))
      (sample_world, False)
     = Inr (sample_world\<lparr>files := [''hist.pkl'' \<mapsto> Pickled [\<lparr>row_i = 0, row_t = 0\<rparr>]],
                         mem_hist := [\<lparr>row_i = 0, row_t = 0\<rparr>]\<rparr>, False)"
  unfolding sample_dispatch
  by (simp add: store_history_def sample_ext_fields sample_world_def)

theorem dispatch_order_witness:
  "setup_logger sample_world
      = Inr (sample_world\<lparr>exp_logger := Some (logger_tasks sample_world None)\<rparr>)
   \<and> dispatch (\<lambda>j. j \<noteq> 2) (logger_tasks sample_world None)
     = [DisplayOptimisation (SeqExpLin 1.1 20 None),
        GPflowLogOptimisation (SeqExpLin 1.1 20 None),
        GPflowMultiClassificationTracker (SeqExpLin 1.5 150 (Some 30)) TriggerTime None,
        StoreOptimisationHistory ''hist.pkl'' (SeqExpLin 1.5 600 (Some 30)) TriggerTime,
        Timeout PyInf]
   \<and> fire_all sample_ext 0 (dispatch (\<lambda>j. j \<noteq> 2) (logger_tasks sample_world None))
        (sample_world, False)
     = Inr (sample_world\<lparr>files := [''hist.pkl'' \<mapsto> Pickled [\<lparr>row_i = 0, row_t = 0\<rparr>]],
                         mem_hist := [\<lparr>row_i = 0, row_t = 0\<rparr>]\<rparr>, False)
   \<and> (\<exists>ts. exp_logger (sample_world\<lparr>exp_logger := Some (logger_tasks sample_world None)\<rparr>)
             = Some ts \<and> length ts = 6
           \<and> is_metric_logging (ts ! 1) \<and> is_history_persistence (ts ! 4)
           \<and> is_timeout (ts ! 5)
           \<and> (\<forall>j < 6. (is_metric_logging (ts ! j) \<longrightarrow> j = 1)
                 \<and> (is_history_persistence (ts ! j) \<longrightarrow> j = 4)
                 \<and> (is_timeout (ts ! j) \<longrightarrow> j = 5))
           \<and> dispatch (\<lambda>j. j \<noteq> 2) ts = map (\<lambda>j. ts ! j) (filter (\<lambda>j. j \<noteq> 2) [0..<6])
           \<and> (\<forall>j < 6. j \<noteq> 2 \<longrightarrow> ts ! j \<in> set (dispatch (\<lambda>j. j \<noteq> 2) ts))
           \<and> (\<forall>a b. a < length (dispatch (\<lambda>j. j \<noteq> 2) ts)
                 \<and> b < length (dispatch (\<lambda>j. j \<noteq> 2) ts)
                 \<and> is_metric_logging (dispatch (\<lambda>j. j \<noteq> 2) ts ! a)
                 \<and> is_history_persistence (dispatch (\<lambda>j. j \<noteq> 2) ts ! b) \<longrightarrow> a < b)
           \<and> (\<forall>a b. a < length (dispatch (\<lambda>j. j \<noteq> 2) ts)
                 \<and> b < length (dispatch (\<lambda>j. j \<noteq> 2) ts)
                 \<and> is_history_persistence (dispatch (\<lambda>j. j \<noteq> 2) ts ! a)
                 \<and> is_timeout (dispatch (\<lambda>j. j \<noteq> 2) ts ! b) \<longrightarrow> a < b)
           \<and> (\<forall>e k v v' stop. (1::nat) \<noteq> 2 \<and> (4::nat) \<noteq> 2
                 \<and> fire_all e k (dispatch (\<lambda>j. j \<noteq> 2) ts) (v, False) = Inr (v', stop) \<longrightarrow>
                 files v' (hist_path sample_world)
                   = Some (Pickled (mem_hist v @
                       [\<lparr>row_i = int (iteration v), row_t = elapsed e k\<rparr>]))))"
  by (intro conjI sample_setup_logger sample_dispatch sample_fire_all
      dispatch_order[OF sample_setup_logger])

section \<open>The timeout ceiling\<close>

lemma declared_dests: "\<forall>a \<in> set parser_arguments. dest_of a \<noteq> ''timeout''"
  by (simp add: parser_arguments_def dest_of_def is_long_def)

lemma find_argument_dest: "find_argument flag = Some a \<Longrightarrow> dest_of a \<noteq> ''timeout''"
proof -
  assume "find_argument flag = Some a"
  then have "a \<in> set parser_arguments"
    by (auto simp: find_argument_def find_Some_iff)
  then show ?thesis using declared_dests by blast
qed

lemma parse_occurrences_no_timeout:
  "parse_occurrences occs extras ns = Inr ns' \<Longrightarrow> ns ''timeout'' = None \<Longrightarrow>
   ns' ''timeout'' = None"
proof (induction occs arbitrary: extras ns)
  case Nil
  then show ?case by (simp split: if_splits)
next
  case (Cons occ rest)
  obtain flag v where occ: "occ = (flag, v)" by (cases occ)
  from Cons.prems(1) occ have nh: "\<not> (flag = ''-h'' \<or> flag = ''--help'')"
    by (auto split: if_splits)
  show ?case
  proof (cases "find_argument flag")
    case None
    with Cons.prems occ nh have "parse_occurrences rest True ns = Inr ns'" by simp
    then show ?thesis using Cons.IH Cons.prems(2) by blast
  next
    case (Some a)
    then have d: "dest_of a \<noteq> ''timeout''" by (rule find_argument_dest)
    show ?thesis
    proof (cases "arg_action a")
      case StoreTrue
      have keep: "(ns(dest_of a \<mapsto> PyBool True)) ''timeout'' = None"
        using d Cons.prems(2) by simp
      from Cons.prems(1) occ nh Some StoreTrue
      have "\<exists>x. parse_occurrences rest x (ns(dest_of a \<mapsto> PyBool True)) = Inr ns'"
        by (cases v) auto
      then show ?thesis using Cons.IH keep by blast
    next
      case Store
      from Cons.prems(1) occ nh Some Store
      obtain s y where "v = Some s" and "convert (arg_type a) s = Some y"
        and r: "parse_occurrences rest extras (ns(dest_of a \<mapsto> y)) = Inr ns'"
        by (cases v; cases "convert (arg_type a) (the v)") auto
      have keep: "(ns(dest_of a \<mapsto> y)) ''timeout'' = None"
        using d Cons.prems(2) by simp
      show ?thesis using Cons.IH[OF r keep] .
    qed
  qed
qed

lemma default_namespace_no_timeout: "default_namespace ''timeout'' = None"
  by (simp add: default_namespace_def parser_arguments_def dest_of_def is_long_def)

lemma parse_args_no_timeout: "parse_args occs = Inr ns \<Longrightarrow> cli_run_settings ns ''timeout'' = None"
  using parse_occurrences_no_timeout[of occs False default_namespace ns]
  by (simp add: parse_args_def default_namespace_no_timeout cli_run_settings_def)

lemma logger_last:
  "setup_logger w = Inr w' \<Longrightarrow>
   \<exists>ts. exp_logger w' = Some (ts @ [Timeout (dict_get (run_settings w) ''timeout'' PyInf)])
        \<and> list_all (\<lambda>t. \<not> is_timeout t) ts"
  by (auto simp: setup_logger_def logger_tasks_def split: sum.splits)

text \<open>
  Claim C8, as amended. The settings dictionary of the experiment accepts an entry
  \<^verbatim>\<open>timeout\<close>, which becomes the ceiling of the one Timeout task; without the entry the
  ceiling is infinity. The command line declares no timeout option: the settings built
  from any accepted command line have no such entry, so the ceiling is then infinity. A
  Timeout task with ceiling infinity never fires.
\<close>

theorem timeout_ceiling:
  "(run_settings w ''timeout'' = Some c \<and> setup_logger w = Inr w' \<longrightarrow>
      (\<exists>ts. exp_logger w' = Some (ts @ [Timeout c]) \<and> list_all (\<lambda>t. \<not> is_timeout t) ts))
   \<and> (run_settings w ''timeout'' = None \<and> setup_logger w = Inr w' \<longrightarrow>
      (\<exists>ts. exp_logger w' = Some (ts @ [Timeout PyInf]) \<and> list_all (\<lambda>t. \<not> is_timeout t) ts))
   \<and> (parse_args occs = Inr ns \<and> experiment_from_args ns w0 = Inr w1
        \<and> setup_logger w1 = Inr w2 \<longrightarrow>
      run_settings w1 ''timeout'' = None
      \<and> (\<exists>ts. exp_logger w2 = Some (ts @ [Timeout PyInf]) \<and> list_all (\<lambda>t. \<not> is_timeout t) ts))
   \<and> \<not> timeout_fires t PyInf"
proof (intro conjI impI)
  assume "run_settings w ''timeout'' = Some c \<and> setup_logger w = Inr w'"
  then show "\<exists>ts. exp_logger w' = Some (ts @ [Timeout c]) \<and> list_all (\<lambda>t. \<not> is_timeout t) ts"
    using logger_last[of w w'] by (simp add: dict_get_def)
next
  assume "run_settings w ''timeout'' = None \<and> setup_logger w = Inr w'"
  then show "\<exists>ts. exp_logger w' = Some (ts @ [Timeout PyInf]) \<and> list_all (\<lambda>t. \<not> is_timeout t) ts"
    using logger_last[of w w'] by (simp add: dict_get_def)
next
  assume h: "parse_args occs = Inr ns \<and> experiment_from_args ns w0 = Inr w1
        \<and> setup_logger w1 = Inr w2"
  then have "run_settings w1 = cli_run_settings ns"
    by (auto simp: experiment_from_args_def split: option.splits pyval.splits)
  then show n: "run_settings w1 ''timeout'' = None"
    using h parse_args_no_timeout[of occs ns] by simp
  show "\<exists>ts. exp_logger w2 = Some (ts @ [Timeout PyInf]) \<and> list_all (\<lambda>t. \<not> is_timeout t) ts"
    using logger_last[of w1 w2] h n by (simp add: dict_get_def)
next
  show "\<not> timeout_fires t PyInf" by simp
qed

text \<open>
  The claim as written fails: a timeout given on the command line is rejected as an
  unrecognised argument, and no declared option has the attribute name \<^verbatim>\<open>timeout\<close>.
\<close>

theorem timeout_counterexample:
  "parse_args [(''--timeout'', Some ''10'')] = Inl (SystemExit 2)
   \<and> ''timeout'' \<notin> set (map dest_of parser_arguments)"
  by (simp add: parse_args_def find_argument_def parser_arguments_def dest_of_def is_long_def)

lemma sample_parse:
  "parse_args [(''-M'', Some ''50'')] = Inr (default_namespace(''M'' \<mapsto> PyInt 50))"
  by (simp add: parse_args_def find_argument_def parser_arguments_def dest_of_def is_long_def
     convert_def signed_def nat_literal_def digit_of_def)

theorem timeout_ceiling_witness:
  "run_settings (sample_world\<lparr>run_settings := [''timeout'' \<mapsto> PyInt 10]\<rparr>) ''timeout''
      = Some (PyInt 10)
   \<and> (\<exists>w'. setup_logger (sample_world\<lparr>run_settings := [''timeout'' \<mapsto> PyInt 10]\<rparr>) = Inr w'
        \<and> (\<exists>ts. exp_logger w' = Some (ts @ [Timeout (PyInt 10)])))
   \<and> run_settings sample_world ''timeout'' = None
   \<and> (\<exists>w'. setup_logger sample_world = Inr w'
        \<and> (\<exists>ts. exp_logger w' = Some (ts @ [Timeout PyInf])))
   \<and> (\<exists>ns w1 w2. parse_args [(''-M'', Some ''50'')] = Inr ns
        \<and> experiment_from_args ns sample_world = Inr w1
        \<and> setup_logger w1 = Inr w2
        \<and> (\<exists>ts. exp_logger w2 = Some (ts @ [Timeout PyInf])))"
proof -
  let ?wa = "sample_world\<lparr>run_settings := [''timeout'' \<mapsto> PyInt 10]\<rparr>"
  let ?wa' = "?wa\<lparr>exp_logger := Some (logger_tasks ?wa None)\<rparr>"
  let ?wb' = "sample_world\<lparr>exp_logger := Some (logger_tasks sample_world None)\<rparr>"
  let ?ns = "default_namespace(''M'' \<mapsto> PyInt 50)"
  let ?w1 = "sample_world\<lparr>run_settings := cli_run_settings ?ns, exp_M := 50\<rparr>"
  let ?w2 = "?w1\<lparr>exp_logger := Some (logger_tasks ?w1 None)\<rparr>"
  have a1: "run_settings ?wa ''timeout'' = Some (PyInt 10)" by simp
  have a2: "setup_logger ?wa = Inr ?wa'"
    by (simp add: setup_logger_def load_old_hist_def path_exists_def sample_world_def)
  have b1: "run_settings sample_world ''timeout'' = None"
    by (simp add: sample_world_def cli_run_settings_def default_namespace_no_timeout)
  have b2: "setup_logger sample_world = Inr ?wb'"
    by (simp add: setup_logger_def load_old_hist_def path_exists_def sample_world_def)
  have c1: "experiment_from_args ?ns sample_world = Inr ?w1"
    by (simp add: experiment_from_args_def)
  have c2: "setup_logger ?w1 = Inr ?w2"
    by (simp add: setup_logger_def load_old_hist_def path_exists_def sample_world_def)
  from timeout_ceiling[of ?wa "PyInt 10" ?wa' "[(''-M'', Some ''50'')]" ?ns sample_world ?w1 ?w2 0]
    timeout_ceiling[of sample_world "PyInt 10" ?wb' "[(''-M'', Some ''50'')]" ?ns sample_world ?w1 ?w2 0]
    a1 a2 b1 b2 c1 c2 sample_parse
  show ?thesis by blast
qed
section \<open>What a run leaves unchanged\<close>

lemma fire_keeps:
  "fire e k t (w, stop) = Inr (w', stop') \<Longrightarrow>
   run_settings w' = run_settings w \<and> step_log w' = step_log w \<and> launches w' = launches w
   \<and> exp_m w' = exp_m w \<and> exp_logger w' = exp_logger w \<and> exp_X w' = exp_X w
   \<and> exp_Y w' = exp_Y w \<and> hist_path w' = hist_path w"
  by (cases t) (auto split: sum.splits)

lemma fire_all_keeps:
  "fire_all e k ts (w, stop) = Inr (w', stop') \<Longrightarrow>
   run_settings w' = run_settings w \<and> step_log w' = step_log w \<and> launches w' = launches w
   \<and> exp_m w' = exp_m w \<and> exp_logger w' = exp_logger w \<and> exp_X w' = exp_X w
   \<and> exp_Y w' = exp_Y w \<and> hist_path w' = hist_path w"
proof (induction ts arbitrary: w stop)
  case Nil
  then show ?case by simp
next
  case (Cons t ts)
  from Cons.prems obtain w1 s1 where f: "fire e k t (w, stop) = Inr (w1, s1)"
    and r: "fire_all e k ts (w1, s1) = Inr (w', stop')"
    by (auto split: sum.splits)
  show ?case using Cons.IH[OF r] fire_keeps[OF f] by simp
qed

lemma rows_at_rows:
  "rows_at rows idx = Inr b \<Longrightarrow>
   length b = length idx \<and> (\<forall>j < length idx. idx ! j < length rows \<and> b ! j = rows ! (idx ! j))"
  by (auto simp: rows_at_def minibatch_def list_all_length split: if_splits)

lemma draw_minibatch_same:
  assumes "draw_minibatch e w mdl = Inr ((ix, iy), (bx, by), (gx, gy))"
  shows "rows_at (exp_X w) ix = Inr bx \<and> rows_at (exp_Y w) iy = Inr by
       \<and> (svgp_X_rng mdl = svgp_Y_rng mdl \<and> length (exp_X w) = length (exp_Y w) \<longrightarrow>
            ix = iy \<and> gx = gy)"
proof -
  obtain s k where x: "svgp_X_rng mdl = RandomState s k" by (cases "svgp_X_rng mdl")
  obtain s' k' where y: "svgp_Y_rng mdl = RandomState s' k'" by (cases "svgp_Y_rng mdl")
  from assms show ?thesis
    by (auto simp: draw_minibatch_def x y split: sum.splits)
qed

lemma run_steps_trace:
  "run_steps e n k w = Inr w' \<Longrightarrow>
   run_settings w' = run_settings w \<and> launches w' = launches w \<and> exp_X w' = exp_X w
   \<and> exp_Y w' = exp_Y w \<and> hist_path w' = hist_path w
   \<and> (\<exists>new. step_log w' = step_log w @ new \<and> length new \<le> n
         \<and> (\<forall>s \<in> set new. run_settings w ''learning_rate'' = Some (step_rate s)
               \<and> rows_at (exp_X w) (step_ix s) = Inr (step_bx s)
               \<and> rows_at (exp_Y w) (step_iy s) = Inr (step_by s))
         \<and> ((\<exists>mdl. exp_m w = Some mdl \<and> svgp_X_rng mdl = svgp_Y_rng mdl)
              \<and> length (exp_X w) = length (exp_Y w) \<longrightarrow>
             (\<forall>s \<in> set new. step_ix s = step_iy s)))"
proof (induction n arbitrary: k w)
  case 0
  then show ?case by simp
next
  case (Suc n)
  from Suc.prems obtain lr where lr: "run_settings w ''learning_rate'' = Some lr"
    by (auto simp: dict_item_def split: option.splits)
  from Suc.prems lr obtain mdl where mdl: "exp_m w = Some mdl"
    by (auto simp: dict_item_def split: option.splits)
  from Suc.prems lr mdl obtain ts where ts: "exp_logger w = Some ts"
    by (auto simp: dict_item_def split: option.splits)
  from Suc.prems lr mdl ts obtain ix iy bx "by" gx gy where
    d: "draw_minibatch e w mdl = Inr ((ix, iy), (bx, by), (gx, gy))"
    by (auto simp: dict_item_def split: sum.splits)
  from Suc.prems lr mdl ts d obtain ps where
    o: "opt_step e lr (bx, by) (svgp_params mdl) = Inr ps"
    by (auto simp: dict_item_def split: sum.splits)
  define rec where "rec = \<lparr>step_rate = lr, step_ix = ix, step_iy = iy,
      step_bx = bx, step_by = by\<rparr>"
  define mdl' where "mdl' = mdl\<lparr>svgp_X_rng := gx, svgp_Y_rng := gy, svgp_params := ps\<rparr>"
  define w0 where "w0 = w\<lparr>exp_m := Some mdl', iteration := Suc (iteration w),
      step_log := step_log w @ [rec]\<rparr>"
  from Suc.prems lr mdl ts d o obtain w1 stop where
    f: "fire_all e k (dispatch (\<lambda>j. is_due e j k) ts) (w0, False) = Inr (w1, stop)"
    and res: "(if stop then Inr w1 else run_steps e n (Suc k) w1) = Inr w'"
    by (auto simp: dict_item_def w0_def mdl'_def rec_def split: sum.splits)
  note dm = draw_minibatch_same[OF d]
  have k1: "run_settings w1 = run_settings w" "step_log w1 = step_log w @ [rec]"
    "launches w1 = launches w" "exp_X w1 = exp_X w" "exp_Y w1 = exp_Y w"
    "hist_path w1 = hist_path w" "exp_m w1 = Some mdl'"
    using fire_all_keeps[OF f] by (simp_all add: w0_def)
  have recp: "run_settings w ''learning_rate'' = Some (step_rate rec)
      \<and> rows_at (exp_X w) (step_ix rec) = Inr (step_bx rec)
      \<and> rows_at (exp_Y w) (step_iy rec) = Inr (step_by rec)"
    using lr dm by (simp add: rec_def)
  have same: "(\<exists>m. exp_m w = Some m \<and> svgp_X_rng m = svgp_Y_rng m)
      \<and> length (exp_X w) = length (exp_Y w) \<Longrightarrow>
      step_ix rec = step_iy rec \<and> svgp_X_rng mdl' = svgp_Y_rng mdl'"
    using dm mdl by (auto simp: rec_def mdl'_def)
  show ?case
  proof (cases stop)
    case True
    with res have e: "w' = w1" by simp
    have "step_log w' = step_log w @ [rec] \<and> length [rec] \<le> Suc n
         \<and> (\<forall>s \<in> set [rec]. run_settings w ''learning_rate'' = Some (step_rate s)
               \<and> rows_at (exp_X w) (step_ix s) = Inr (step_bx s)
               \<and> rows_at (exp_Y w) (step_iy s) = Inr (step_by s))
         \<and> ((\<exists>mdl. exp_m w = Some mdl \<and> svgp_X_rng mdl = svgp_Y_rng mdl)
              \<and> length (exp_X w) = length (exp_Y w) \<longrightarrow>
             (\<forall>s \<in> set [rec]. step_ix s = step_iy s))"
      using k1 recp same by (simp add: e)
    then show ?thesis using k1 e by blast
  next
    case False
    with res have r: "run_steps e n (Suc k) w1 = Inr w'" by simp
    from Suc.IH[OF r] obtain new where
      a: "run_settings w' = run_settings w1" "launches w' = launches w1"
         "exp_X w' = exp_X w1" "exp_Y w' = exp_Y w1" "hist_path w' = hist_path w1" and
      b: "step_log w' = step_log w1 @ new" "length new \<le> n" and
      c: "\<forall>s \<in> set new. run_settings w1 ''learning_rate'' = Some (step_rate s)
               \<and> rows_at (exp_X w1) (step_ix s) = Inr (step_bx s)
               \<and> rows_at (exp_Y w1) (step_iy s) = Inr (step_by s)" and
      g: "(\<exists>mdl. exp_m w1 = Some mdl \<and> svgp_X_rng mdl = svgp_Y_rng mdl)
              \<and> length (exp_X w1) = length (exp_Y w1) \<longrightarrow>
             (\<forall>s \<in> set new. step_ix s = step_iy s)"
      by blast
    have "step_log w' = step_log w @ (rec # new) \<and> length (rec # new) \<le> Suc n
         \<and> (\<forall>s \<in> set (rec # new). run_settings w ''learning_rate'' = Some (step_rate s)
               \<and> rows_at (exp_X w) (step_ix s) = Inr (step_bx s)
               \<and> rows_at (exp_Y w) (step_iy s) = Inr (step_by s))
         \<and> ((\<exists>mdl. exp_m w = Some mdl \<and> svgp_X_rng mdl = svgp_Y_rng mdl)
              \<and> length (exp_X w) = length (exp_Y w) \<longrightarrow>
             (\<forall>s \<in> set (rec # new). step_ix s = step_iy s))"
    proof (intro conjI impI)
      show "step_log w' = step_log w @ (rec # new)" using b k1 by simp
      show "length (rec # new) \<le> Suc n" using b by simp
      show "\<forall>s \<in> set (rec # new). run_settings w ''learning_rate'' = Some (step_rate s)
               \<and> rows_at (exp_X w) (step_ix s) = Inr (step_bx s)
               \<and> rows_at (exp_Y w) (step_iy s) = Inr (step_by s)"
        using recp c k1 by simp
    next
      assume h: "(\<exists>mdl. exp_m w = Some mdl \<and> svgp_X_rng mdl = svgp_Y_rng mdl)
              \<and> length (exp_X w) = length (exp_Y w)"
      from same[OF h] have s0: "step_ix rec = step_iy rec"
        and s1: "svgp_X_rng mdl' = svgp_Y_rng mdl'" by simp_all
      from h s1 k1 have "(\<exists>mdl. exp_m w1 = Some mdl \<and> svgp_X_rng mdl = svgp_Y_rng mdl)
              \<and> length (exp_X w1) = length (exp_Y w1)" by simp
      with g have "\<forall>s \<in> set new. step_ix s = step_iy s" by blast
      with s0 show "\<forall>s \<in> set (rec # new). step_ix s = step_iy s" by simp
    qed
    moreover have "run_settings w' = run_settings w \<and> launches w' = launches w
        \<and> exp_X w' = exp_X w \<and> exp_Y w' = exp_Y w \<and> hist_path w' = hist_path w"
      using a k1 by simp
    ultimately show ?thesis by blast
  qed
qed

lemma setup_model_keeps:
  "setup_model e w = Inr w' \<Longrightarrow>
   run_settings w' = run_settings w \<and> launches w' = launches w \<and> files w' = files w
   \<and> hist_path w' = hist_path w \<and> exp_X w' = exp_X w \<and> exp_Y w' = exp_Y w"
  by (auto simp: setup_model_def Let_def split: sum.splits prod.splits if_splits)

lemma setup_logger_keeps:
  "setup_logger w = Inr w' \<Longrightarrow>
   run_settings w' = run_settings w \<and> launches w' = launches w \<and> exp_m w' = exp_m w
   \<and> hist_path w' = hist_path w \<and> exp_X w' = exp_X w \<and> exp_Y w' = exp_Y w"
  by (auto simp: setup_logger_def split: sum.splits)

lemma exp_setup_keeps:
  "exp_setup e w = Inr w' \<Longrightarrow>
   run_settings w' = run_settings w \<and> launches w' = launches w
   \<and> hist_path w' = hist_path w \<and> exp_X w' = exp_X w \<and> exp_Y w' = exp_Y w"
  by (auto simp: exp_setup_def split: sum.splits option.splits
      dest!: setup_model_keeps setup_logger_keeps)

lemma reseed_keeps:
  "reseed_samplers e w = Inr (s, mdl, w') \<Longrightarrow>
   run_settings w' = run_settings w \<and> launches w' = launches w \<and> exp_m w' = Some mdl
   \<and> hist_path w' = hist_path w \<and> exp_X w' = exp_X w \<and> exp_Y w' = exp_Y w
   \<and> svgp_X_rng mdl = RandomState s 0 \<and> svgp_Y_rng mdl = RandomState s 0
   \<and> np_randint e (np_random w) = (s, np_random w')"
  by (auto simp: reseed_samplers_def Let_def split: prod.splits option.splits)

section \<open>The launches of the relaunch loop\<close>

lemma launch_once_trace:
  assumes "launch_once e b p c w = Inr w'"
  shows "exp_X w' = exp_X w \<and> exp_Y w' = exp_Y w \<and> hist_path w' = hist_path w
     \<and> (\<exists>l. launches w' = launches w @ [l]
          \<and> max_iteration_at (files w) (hist_path w) = Inr (seen_i l)
          \<and> launch_ok e b p c (exp_X w) (exp_Y w) l)"
proof -
  from assms obtain i where i: "max_iteration_at (files w) (hist_path w) = Inr i"
    by (auto simp: launch_once_def split: sum.splits)
  from assms i obtain lr where lr: "derive_learning_rate b p c i = Inr lr"
    by (auto simp: launch_once_def split: sum.splits)
  define w0 where "w0 = w\<lparr>run_settings := (run_settings w)(''learning_rate'' \<mapsto> py_of_float lr)\<rparr>"
  from assms i lr obtain w1 where w1: "exp_setup e w0 = Inr w1"
    by (auto simp: launch_once_def w0_def split: sum.splits)
  from assms i lr w1 obtain s mdl w2 where w2: "reseed_samplers e w1 = Inr (s, mdl, w2)"
    by (auto simp: launch_once_def w0_def split: sum.splits)
  from assms i lr w1 w2 obtain w3 where w3: "exp_run e c w2 = Inr w3"
    by (auto simp: launch_once_def w0_def split: sum.splits)
  define l where "l = \<lparr>seen_i = i, rate = lr, drawn_from = np_random w1, seed = s,
      run_X_rng = svgp_X_rng mdl, run_Y_rng = svgp_Y_rng mdl, steps = step_log w3\<rparr>"
  from assms i lr w1 w2 w3 have w': "w' = w3\<lparr>launches := launches w3 @ [l]\<rparr>"
    by (simp add: launch_once_def w0_def l_def)
  note k1 = exp_setup_keeps[OF w1]
  note k2 = reseed_keeps[OF w2]
  let ?v = "w2\<lparr>step_log := []\<rparr>"
  from w3 have r: "run_steps e (nat c) 0 ?v = Inr w3" by (simp add: exp_run_def)
  from run_steps_trace[OF r] obtain new where
    a: "run_settings w3 = run_settings ?v" "launches w3 = launches ?v"
       "exp_X w3 = exp_X ?v" "exp_Y w3 = exp_Y ?v" "hist_path w3 = hist_path ?v" and
    n: "step_log w3 = step_log ?v @ new" "length new \<le> nat c" and
    q: "\<forall>s \<in> set new. run_settings ?v ''learning_rate'' = Some (step_rate s)
               \<and> rows_at (exp_X ?v) (step_ix s) = Inr (step_bx s)
               \<and> rows_at (exp_Y ?v) (step_iy s) = Inr (step_by s)" and
    g: "(\<exists>mdl. exp_m ?v = Some mdl \<and> svgp_X_rng mdl = svgp_Y_rng mdl)
              \<and> length (exp_X ?v) = length (exp_Y ?v) \<longrightarrow>
             (\<forall>s \<in> set new. step_ix s = step_iy s)"
    by blast
  have st: "steps l = new" using n by (simp add: l_def)
  have X: "exp_X ?v = exp_X w" and Y: "exp_Y ?v = exp_Y w"
    using k1 k2 by (simp_all add: w0_def)
  have rs: "run_settings ?v ''learning_rate'' = Some (py_of_float lr)"
    using k1 k2 by (simp add: w0_def)
  have eq: "\<exists>mdl. exp_m ?v = Some mdl \<and> svgp_X_rng mdl = svgp_Y_rng mdl"
    using k2 by simp
  have ok: "launch_ok e b p c (exp_X w) (exp_Y w) l"
    unfolding launch_ok_def st
  proof (intro conjI impI)
    show "derive_learning_rate b p c (seen_i l) = Inr (rate l)" using lr by (simp add: l_def)
    show "length new \<le> nat c" by (rule n(2))
    show "\<forall>s \<in> set new. step_rate s = py_of_float (rate l)"
      using q rs by (simp add: l_def)
    show "fst (np_randint e (drawn_from l)) = seed l" using k2 by (simp add: l_def)
    show "run_X_rng l = RandomState (seed l) 0" using k2 by (simp add: l_def)
    show "run_Y_rng l = RandomState (seed l) 0" using k2 by (simp add: l_def)
    show "\<forall>s \<in> set new. rows_at (exp_X w) (step_ix s) = Inr (step_bx s)
        \<and> rows_at (exp_Y w) (step_iy s) = Inr (step_by s)"
      using q X Y by simp
  next
    assume "length (exp_X w) = length (exp_Y w)"
    then show "\<forall>s \<in> set new. step_ix s = step_iy s"
      using g eq X Y by simp
  qed
  have "launches w' = launches w @ [l]"
    using a k1 k2 by (simp add: w' w0_def)
  moreover have "max_iteration_at (files w) (hist_path w) = Inr (seen_i l)"
    using i by (simp add: l_def)
  moreover have "exp_X w' = exp_X w \<and> exp_Y w' = exp_Y w \<and> hist_path w' = hist_path w"
    using a k1 k2 by (simp add: w' w0_def)
  ultimately show ?thesis using ok by blast
qed

lemma training_loop_trace:
  "training_loop e b p c n w = Inr w' \<Longrightarrow>
   exp_X w' = exp_X w \<and> exp_Y w' = exp_Y w \<and> hist_path w' = hist_path w
   \<and> (\<exists>new. launches w' = launches w @ new \<and> length new = n
        \<and> (\<forall>k < n. \<exists>wk. training_loop e b p c k w = Inr wk
               \<and> max_iteration_at (files wk) (hist_path wk) = Inr (seen_i (new ! k)))
        \<and> (\<forall>l \<in> set new. launch_ok e b p c (exp_X w) (exp_Y w) l))"
proof (induction n arbitrary: w)
  case 0
  then show ?case by simp
next
  case (Suc n)
  from Suc.prems obtain w1 where w1: "launch_once e b p c w = Inr w1"
    and rest: "training_loop e b p c n w1 = Inr w'"
    by (auto split: sum.splits)
  from launch_once_trace[OF w1] obtain l where
    f1: "exp_X w1 = exp_X w" "exp_Y w1 = exp_Y w" "hist_path w1 = hist_path w" and
    l1: "launches w1 = launches w @ [l]" and
    l2: "max_iteration_at (files w) (hist_path w) = Inr (seen_i l)" and
    l3: "launch_ok e b p c (exp_X w) (exp_Y w) l"
    by blast
  from Suc.IH[OF rest] obtain new where
    f2: "exp_X w' = exp_X w1" "exp_Y w' = exp_Y w1" "hist_path w' = hist_path w1" and
    n1: "launches w' = launches w1 @ new" "length new = n" and
    n2: "\<forall>k < n. \<exists>wk. training_loop e b p c k w1 = Inr wk
               \<and> max_iteration_at (files wk) (hist_path wk) = Inr (seen_i (new ! k))" and
    n3: "\<forall>l \<in> set new. launch_ok e b p c (exp_X w1) (exp_Y w1) l"
    by blast
  have a: "launches w' = launches w @ (l # new)" using n1 l1 by simp
  have b: "length (l # new) = Suc n" using n1 by simp
  have c: "\<forall>k < Suc n. \<exists>wk. training_loop e b p c k w = Inr wk
               \<and> max_iteration_at (files wk) (hist_path wk) = Inr (seen_i ((l # new) ! k))"
  proof (intro allI impI)
    fix k assume k: "k < Suc n"
    show "\<exists>wk. training_loop e b p c k w = Inr wk
               \<and> max_iteration_at (files wk) (hist_path wk) = Inr (seen_i ((l # new) ! k))"
    proof (cases k)
      case 0
      then show ?thesis using l2 by simp
    next
      case (Suc j)
      with k have "j < n" by simp
      with n2 obtain wk where "training_loop e b p c j w1 = Inr wk"
        and "max_iteration_at (files wk) (hist_path wk) = Inr (seen_i (new ! j))" by blast
      then show ?thesis using Suc w1 by simp
    qed
  qed
  have d: "\<forall>l \<in> set (l # new). launch_ok e b p c (exp_X w) (exp_Y w) l"
    using l3 n3 f1 by simp
  have "exp_X w' = exp_X w \<and> exp_Y w' = exp_Y w \<and> hist_path w' = hist_path w"
    using f1 f2 by simp
  then show ?case using a b c d by blast
qed

section \<open>Two launches in the concrete environment\<close>

lemma exp_setup_rbf:
  assumes "run_settings w ''kernel'' = Some (PyStr ''rbf'')"
    and "run_settings w ''fix_w'' = Some (PyBool False)"
    and "random_rows e w = Inr (Z, g)"
    and "load_old_hist (files w) (hist_path w) = Inr h"
  shows "exp_setup e w
       = Inr (w\<lparr>np_random := g,
                exp_m := Some \<lparr>svgp_kern = RBF 784,
                   svgp_kern_fixed = dict_get (run_settings w) ''fixed'' (PyBool False),
                   svgp_Z = Z,
                   svgp_minibatch_size =
                     dict_get (run_settings w) ''minibatch_size'' (PyInt (exp_M w)),
                   svgp_X_rng = RandomState (entropy_X e) 0,
                   svgp_Y_rng = RandomState (entropy_Y e) 0,
                   svgp_W_fixed = False,
                   svgp_params = []\<rparr>,
                exp_logger := Some (logger_tasks w h),
                mem_hist := (case h of None \<Rightarrow> [] | Some rows \<Rightarrow> rows),
                iteration := last_iteration (case h of None \<Rightarrow> [] | Some rows \<Rightarrow> rows)\<rparr>)"
proof -
  have c: "choose_kernel e w (PyStr ''rbf'') = Inr (RBF (28 * 28), Some Z, g)"
    using assms(3) by (simp add: choose_kernel_def)
  let ?mdl = "\<lparr>svgp_kern = RBF 784,
                   svgp_kern_fixed = dict_get (run_settings w) ''fixed'' (PyBool False),
                   svgp_Z = Z,
                   svgp_minibatch_size =
                     dict_get (run_settings w) ''minibatch_size'' (PyInt (exp_M w)),
                   svgp_X_rng = RandomState (entropy_X e) 0,
                   svgp_Y_rng = RandomState (entropy_Y e) 0,
                   svgp_W_fixed = False,
                   svgp_params = []\<rparr>"
  have m: "setup_model e w = Inr (w\<lparr>np_random := g, exp_m := Some ?mdl\<rparr>)"
    using assms(1,2)
    by (simp add: setup_model_def dict_item_def c inducing_points_def Let_def)
  have l: "setup_logger (w\<lparr>np_random := g, exp_m := Some ?mdl\<rparr>)
      = Inr (w\<lparr>np_random := g, exp_m := Some ?mdl, exp_logger := Some (logger_tasks w h)\<rparr>)"
    using assms(4) by (simp add: setup_logger_def logger_tasks_def)
  show ?thesis
    by (simp add: exp_setup_def m l logger_tasks_def)
qed

lemma upt_three: "[0..<3] = [0, 1, 2]"
  by (simp add: upt_rec)

lemma sample_run_step:
  assumes "run_settings w ''learning_rate'' = Some lr"
    and "exp_m w = Some (sample_model_at s k' ps)"
    and "exp_logger w = Some (sample_tasks h)"
    and "exp_X w = [[0], [1], [2]]" and "exp_Y w = [[0], [1], [0]]"
    and "files w ''hist.pkl'' = None \<or> (\<exists>old. files w ''hist.pkl'' = Some (Pickled old))"
  shows "run_steps sample_ext (Suc n) k w
       = run_steps sample_ext n (Suc k)
           (w\<lparr>exp_m := Some (sample_model_at s (Suc k') (0 # ps)),
              iteration := Suc (iteration w),
              step_log := step_log w @
                [\<lparr>step_rate = lr,
                  step_ix = [(s + k') mod 3, (s + k' + 1) mod 3],
                  step_iy = [(s + k') mod 3, (s + k' + 1) mod 3],
                  step_bx = [[[0], [1], [2]] ! ((s + k') mod 3), [[0], [1], [2]] ! ((s + k' + 1) mod 3)],
                  step_by = [[[0], [1], [0]] ! ((s + k') mod 3), [[0], [1], [0]] ! ((s + k' + 1) mod 3)]\<rparr>],
              mem_hist := mem_hist w @ [\<lparr>row_i = int (Suc (iteration w)), row_t = real k\<rparr>],
              files := (files w)(''hist.pkl'' \<mapsto>
                    Pickled (mem_hist w @ [\<lparr>row_i = int (Suc (iteration w)), row_t = real k\<rparr>]))\<rparr>)"
proof -
  have three: "n mod 3 < Suc (Suc (Suc 0))" for n :: nat by presburger
  have d: "draw_minibatch sample_ext w (sample_model_at s k' ps)
      = Inr (([(s + k') mod 3, (s + k' + 1) mod 3], [(s + k') mod 3, (s + k' + 1) mod 3]),
             ([[[0], [1], [2]] ! ((s + k') mod 3), [[0], [1], [2]] ! ((s + k' + 1) mod 3)],
              [[[0], [1], [0]] ! ((s + k') mod 3), [[0], [1], [0]] ! ((s + k' + 1) mod 3)]),
             (RandomState s (Suc k'), RandomState s (Suc k')))"
    using assms(4,5) three[of "s + k'"] three[of "Suc (s + k')"]
    by (simp add: draw_minibatch_def sample_model_at_def sample_ext_fields rows_at_def
        minibatch_def)
  have st: "store_history (files w) ''hist.pkl'' hh = Inr ((files w)(''hist.pkl'' \<mapsto> Pickled hh))" for hh
    using assms(6) by (auto simp: store_history_def)
  show ?thesis
    using assms(1,2,3)
    by (simp add: dict_item_def d[unfolded sample_model_at_def] sample_ext_fields
        sample_tasks_def dispatch_six st sample_model_at_def)
qed

lemma sample_reseed:
  assumes "np_random w = RandomState 5 k" and "exp_m w = Some mdl"
  shows "reseed_samplers sample_ext w
       = Inr ((46 + k) mod 1000000000,
              mdl\<lparr>svgp_X_rng := RandomState ((46 + k) mod 1000000000) 0,
                  svgp_Y_rng := RandomState ((46 + k) mod 1000000000) 0\<rparr>,
              w\<lparr>np_random := RandomState 5 (Suc k),
                exp_m := Some (mdl\<lparr>svgp_X_rng := RandomState ((46 + k) mod 1000000000) 0,
                                  svgp_Y_rng := RandomState ((46 + k) mod 1000000000) 0\<rparr>)\<rparr>)"
  using assms by (simp add: reseed_samplers_def sample_ext_fields Let_def add.commute)

lemma sample_rate_first: "derive_learning_rate 0.001 0.5 2 (FloatIter 1) = Inr (Finite 0.001)"
proof -
  have "\<lfloor>(1::real) / 2\<rfloor> = 0" by linarith
  then show ?thesis using derive_float_eq[of 1 2 "0.001" "0.5"] by simp
qed

lemma sample_rate_second:
  "derive_learning_rate 0.001 0.5 2 (Int64Iter 2) = Inr (Finite (0.001 * 2 powr (- 0.5)))"
  using derive_int64_eq[of 2 2 "0.001" "0.5"] by simp

lemma sample_setup_first:
  "exp_setup sample_ext
     (sample_world\<lparr>run_settings := (run_settings sample_world)(''learning_rate'' \<mapsto> PyFloat 0.001)\<rparr>)
   = Inr (sample_world
       \<lparr>np_random := RandomState 5 1,
        run_settings := (run_settings sample_world)(''learning_rate'' \<mapsto> PyFloat 0.001),
        exp_m := Some (sample_model_at 11 0 []\<lparr>svgp_Y_rng := RandomState 12 0\<rparr>),
        exp_logger := Some (sample_tasks None),
        iteration := 0,
        mem_hist := []\<rparr>)"
proof -
  let ?w = "sample_world\<lparr>run_settings := (run_settings sample_world)(''learning_rate'' \<mapsto> PyFloat 0.001)\<rparr>"
  have a: "run_settings ?w ''kernel'' = Some (PyStr ''rbf'')"
    by (simp add: sample_world_settings)
  have b: "run_settings ?w ''fix_w'' = Some (PyBool False)"
    by (simp add: sample_world_settings)
  have c: "random_rows sample_ext ?w = Inr ([[2], [1]], RandomState 5 1)"
    by (simp add: random_rows_def sample_world_fields sample_ext_fields rows_at_def
        py_prefix_def minibatch_def upt_three)
  have d: "load_old_hist (files ?w) (hist_path ?w) = Inr None"
    by (simp add: load_absent path_exists_def sample_world_fields)
  show ?thesis
    unfolding exp_setup_rbf[OF a b c d]
    by (simp add: sample_world_settings sample_world_fields dict_get_def logger_tasks_def
        sample_tasks_def sample_model_at_def sample_ext_def)
qed

lemma sample_first_launch:
  "launch_once sample_ext 0.001 0.5 2 sample_world = Inr sample_after_first"
proof -
  let ?rs = "(run_settings sample_world)(''learning_rate'' \<mapsto> PyFloat 0.001)"
  let ?w1 = "sample_world
       \<lparr>np_random := RandomState 5 1,
        run_settings := ?rs,
        exp_m := Some (sample_model_at 11 0 []\<lparr>svgp_Y_rng := RandomState 12 0\<rparr>),
        exp_logger := Some (sample_tasks None),
        iteration := 0,
        mem_hist := []\<rparr>"
  let ?w2 = "?w1\<lparr>np_random := RandomState 5 2, exp_m := Some (sample_model_at 47 0 [])\<rparr>"
  have i: "max_iteration_at (files sample_world) (hist_path sample_world) = Inr (FloatIter 1)"
    by (simp add: absent_iteration sample_world_fields)
  have r: "reseed_samplers sample_ext ?w1 = Inr (47, sample_model_at 47 0 [], ?w2)"
    using sample_reseed[of ?w1 1 "sample_model_at 11 0 []\<lparr>svgp_Y_rng := RandomState 12 0\<rparr>"]
    by (simp add: sample_model_at_def)
  let ?w3 = "?w2\<lparr>step_log := []\<rparr>"
  have s1: "run_steps sample_ext (Suc (Suc 0)) 0 ?w3 = run_steps sample_ext (Suc 0) (Suc 0)
      (?w3\<lparr>exp_m := Some (sample_model_at 47 (Suc 0) [0]),
           iteration := Suc 0,
           step_log := [\<lparr>step_rate = PyFloat 0.001, step_ix = [2, 0], step_iy = [2, 0],
                          step_bx = [[2], [0]], step_by = [[0], [0]]\<rparr>],
           mem_hist := [\<lparr>row_i = 1, row_t = 0\<rparr>],
           files := [''hist.pkl'' \<mapsto> Pickled [\<lparr>row_i = 1, row_t = 0\<rparr>]]\<rparr>)"
    using sample_run_step[of ?w3 "PyFloat 0.001" 47 0 "[]" None "Suc 0" 0]
    by (simp add: sample_world_fields)
  let ?w4 = "?w3\<lparr>exp_m := Some (sample_model_at 47 (Suc 0) [0]),
           iteration := Suc 0,
           step_log := [\<lparr>step_rate = PyFloat 0.001, step_ix = [2, 0], step_iy = [2, 0],
                          step_bx = [[2], [0]], step_by = [[0], [0]]\<rparr>],
           mem_hist := [\<lparr>row_i = 1, row_t = 0\<rparr>],
           files := [''hist.pkl'' \<mapsto> Pickled [\<lparr>row_i = 1, row_t = 0\<rparr>]]\<rparr>"
  have s2: "run_steps sample_ext (Suc 0) (Suc 0) ?w4 = Inr
      (?w4\<lparr>exp_m := Some (sample_model_at 47 (Suc (Suc 0)) [0, 0]),
           iteration := Suc (Suc 0),
           step_log := sample_steps_first,
           mem_hist := [\<lparr>row_i = 1, row_t = 0\<rparr>, \<lparr>row_i = 2, row_t = 1\<rparr>],
           files := [''hist.pkl'' \<mapsto> Pickled [\<lparr>row_i = 1, row_t = 0\<rparr>, \<lparr>row_i = 2, row_t = 1\<rparr>]]\<rparr>)"
    using sample_run_step[of ?w4 "PyFloat 0.001" 47 "Suc 0" "[0]" None 0 "Suc 0"]
    by (simp add: sample_world_fields sample_steps_first_def)
  have n: "nat 2 = Suc (Suc 0)" by simp
  let ?w5 = "?w4\<lparr>exp_m := Some (sample_model_at 47 (Suc (Suc 0)) [0, 0]),
           iteration := Suc (Suc 0),
           step_log := sample_steps_first,
           mem_hist := [\<lparr>row_i = 1, row_t = 0\<rparr>, \<lparr>row_i = 2, row_t = 1\<rparr>],
           files := [''hist.pkl'' \<mapsto> Pickled [\<lparr>row_i = 1, row_t = 0\<rparr>, \<lparr>row_i = 2, row_t = 1\<rparr>]]\<rparr>"
  have e: "exp_run sample_ext 2 ?w2 = Inr ?w5"
    unfolding exp_run_def n s1 s2 ..
  have l: "launch_once sample_ext 0.001 0.5 2 sample_world
      = Inr (?w5\<lparr>launches := launches ?w5 @
               [\<lparr>seen_i = FloatIter 1, rate = Finite 0.001, drawn_from = np_random ?w1,
                 seed = 47, run_X_rng = svgp_X_rng (sample_model_at 47 0 []),
                 run_Y_rng = svgp_Y_rng (sample_model_at 47 0 []),
                 steps = step_log ?w5\<rparr>]\<rparr>)"
    using i sample_rate_first sample_setup_first r e
    by (simp add: launch_once_def)
  show ?thesis
    unfolding l
    by (simp add: sample_after_first_def sample_launch_first_def sample_model_at_def
        sample_world_def)
qed

lemma sample_after_first_fields:
  "files sample_after_first
     = [''hist.pkl'' \<mapsto> Pickled [\<lparr>row_i = 1, row_t = 0\<rparr>, \<lparr>row_i = 2, row_t = 1\<rparr>]]"
  "hist_path sample_after_first = ''hist.pkl''"
  "np_random sample_after_first = RandomState 5 2"
  "exp_M sample_after_first = 2"
  "exp_X sample_after_first = [[0], [1], [2]]"
  "exp_Y sample_after_first = [[0], [1], [0]]"
  "launches sample_after_first = [sample_launch_first]"
  "run_settings sample_after_first
     = (run_settings sample_world)(''learning_rate'' \<mapsto> PyFloat 0.001)"
  by (simp_all add: sample_after_first_def sample_world_fields)

lemma sample_setup_second:
  "exp_setup sample_ext
     (sample_after_first\<lparr>run_settings := (run_settings sample_after_first)
         (''learning_rate'' \<mapsto> PyFloat (0.001 * 2 powr (- 0.5)))\<rparr>)
   = Inr (sample_after_first
       \<lparr>np_random := RandomState 5 3,
        run_settings := (run_settings sample_world)
           (''learning_rate'' \<mapsto> PyFloat (0.001 * 2 powr (- 0.5))),
        exp_m := Some (sample_model_at 11 0 []\<lparr>svgp_Y_rng := RandomState 12 0\<rparr>),
        exp_logger := Some (sample_tasks
           (Some [\<lparr>row_i = 1, row_t = 0\<rparr>, \<lparr>row_i = 2, row_t = 1\<rparr>])),
        iteration := 2,
        mem_hist := [\<lparr>row_i = 1, row_t = 0\<rparr>, \<lparr>row_i = 2, row_t = 1\<rparr>]\<rparr>)"
proof -
  let ?w = "sample_after_first\<lparr>run_settings := (run_settings sample_after_first)
         (''learning_rate'' \<mapsto> PyFloat (0.001 * 2 powr (- 0.5)))\<rparr>"
  have a: "run_settings ?w ''kernel'' = Some (PyStr ''rbf'')"
    by (simp add: sample_after_first_fields sample_world_settings)
  have b: "run_settings ?w ''fix_w'' = Some (PyBool False)"
    by (simp add: sample_after_first_fields sample_world_settings)
  have c: "random_rows sample_ext ?w = Inr ([[2], [1]], RandomState 5 3)"
    by (simp add: random_rows_def sample_after_first_fields sample_ext_fields rows_at_def
        py_prefix_def minibatch_def upt_three eval_nat_numeral)
  have d: "load_old_hist (files ?w) (hist_path ?w)
      = Inr (Some [\<lparr>row_i = 1, row_t = 0\<rparr>, \<lparr>row_i = 2, row_t = 1\<rparr>])"
    by (simp add: load_old_hist_def path_exists_def read_pickle_def sample_after_first_fields)
  show ?thesis
    unfolding exp_setup_rbf[OF a b c d]
    by (simp add: sample_after_first_fields sample_world_settings dict_get_def
        logger_tasks_def sample_tasks_def sample_model_at_def sample_ext_def)
qed

lemma sample_second_launch:
  "launch_once sample_ext 0.001 0.5 2 sample_after_first = Inr sample_after_second"
proof -
  let ?h = "[\<lparr>row_i = 1, row_t = 0\<rparr>, \<lparr>row_i = 2, row_t = 1 :: real\<rparr>]"
  let ?lr = "PyFloat (0.001 * 2 powr (- 0.5))"
  let ?rs = "(run_settings sample_world)(''learning_rate'' \<mapsto> ?lr)"
  let ?w1 = "sample_after_first
       \<lparr>np_random := RandomState 5 3,
        run_settings := ?rs,
        exp_m := Some (sample_model_at 11 0 []\<lparr>svgp_Y_rng := RandomState 12 0\<rparr>),
        exp_logger := Some (sample_tasks (Some ?h)),
        iteration := 2,
        mem_hist := ?h\<rparr>"
  let ?w2 = "?w1\<lparr>np_random := RandomState 5 4, exp_m := Some (sample_model_at 49 0 [])\<rparr>"
  have i: "max_iteration_at (files sample_after_first) (hist_path sample_after_first)
      = Inr (Int64Iter 2)"
    by (simp add: present_iteration sample_after_first_fields)
  have r: "reseed_samplers sample_ext ?w1 = Inr (49, sample_model_at 49 0 [], ?w2)"
    using sample_reseed[of ?w1 3 "sample_model_at 11 0 []\<lparr>svgp_Y_rng := RandomState 12 0\<rparr>"]
    by (simp add: sample_model_at_def)
  let ?w3 = "?w2\<lparr>step_log := []\<rparr>"
  have s1: "run_steps sample_ext (Suc (Suc 0)) 0 ?w3 = run_steps sample_ext (Suc 0) (Suc 0)
      (?w3\<lparr>exp_m := Some (sample_model_at 49 (Suc 0) [0]),
           iteration := 3,
           step_log := [\<lparr>step_rate = ?lr, step_ix = [1, 2], step_iy = [1, 2],
                          step_bx = [[1], [2]], step_by = [[1], [0]]\<rparr>],
           mem_hist := ?h @ [\<lparr>row_i = 3, row_t = 0\<rparr>],
           files := [''hist.pkl'' \<mapsto> Pickled (?h @ [\<lparr>row_i = 3, row_t = 0\<rparr>])]\<rparr>)"
    using sample_run_step[of ?w3 ?lr 49 0 "[]" "Some ?h" "Suc 0" 0]
    by (simp add: sample_after_first_fields)
  let ?w4 = "?w3\<lparr>exp_m := Some (sample_model_at 49 (Suc 0) [0]),
           iteration := 3,
           step_log := [\<lparr>step_rate = ?lr, step_ix = [1, 2], step_iy = [1, 2],
                          step_bx = [[1], [2]], step_by = [[1], [0]]\<rparr>],
           mem_hist := ?h @ [\<lparr>row_i = 3, row_t = 0\<rparr>],
           files := [''hist.pkl'' \<mapsto> Pickled (?h @ [\<lparr>row_i = 3, row_t = 0\<rparr>])]\<rparr>"
  have s2: "run_steps sample_ext (Suc 0) (Suc 0) ?w4 = Inr
      (?w4\<lparr>exp_m := Some (sample_model_at 49 (Suc (Suc 0)) [0, 0]),
           iteration := 4,
           step_log := sample_steps_second,
           mem_hist := ?h @ [\<lparr>row_i = 3, row_t = 0\<rparr>, \<lparr>row_i = 4, row_t = 1\<rparr>],
           files := [''hist.pkl'' \<mapsto>
              Pickled (?h @ [\<lparr>row_i = 3, row_t = 0\<rparr>, \<lparr>row_i = 4, row_t = 1\<rparr>])]\<rparr>)"
    using sample_run_step[of ?w4 ?lr 49 "Suc 0" "[0]" "Some ?h" 0 "Suc 0"]
    by (simp add: sample_after_first_fields sample_steps_second_def)
  have n: "nat 2 = Suc (Suc 0)" by simp
  let ?w5 = "?w4\<lparr>exp_m := Some (sample_model_at 49 (Suc (Suc 0)) [0, 0]),
           iteration := 4,
           step_log := sample_steps_second,
           mem_hist := ?h @ [\<lparr>row_i = 3, row_t = 0\<rparr>, \<lparr>row_i = 4, row_t = 1\<rparr>],
           files := [''hist.pkl'' \<mapsto>
              Pickled (?h @ [\<lparr>row_i = 3, row_t = 0\<rparr>, \<lparr>row_i = 4, row_t = 1\<rparr>])]\<rparr>"
  have e: "exp_run sample_ext 2 ?w2 = Inr ?w5"
    unfolding exp_run_def n s1 s2 ..
  have l: "launch_once sample_ext 0.001 0.5 2 sample_after_first
      = Inr (?w5\<lparr>launches := launches ?w5 @
               [\<lparr>seen_i = Int64Iter 2, rate = Finite (0.001 * 2 powr (- 0.5)),
                 drawn_from = np_random ?w1,
                 seed = 49, run_X_rng = svgp_X_rng (sample_model_at 49 0 []),
                 run_Y_rng = svgp_Y_rng (sample_model_at 49 0 []),
                 steps = step_log ?w5\<rparr>]\<rparr>)"
    using i sample_rate_second sample_setup_second r e
    by (simp add: launch_once_def)
  show ?thesis
    unfolding l
    by (simp add: sample_after_second_def sample_launch_second_def sample_model_at_def
        sample_after_first_def sample_world_def)
qed

lemma sample_two_launches:
  "training_loop sample_ext 0.001 0.5 2 2 sample_world = Inr sample_after_second"
proof -
  have "training_loop sample_ext 0.001 0.5 2 (Suc (Suc 0)) sample_world = Inr sample_after_second"
    using sample_first_launch sample_second_launch by simp
  then show ?thesis by (simp add: eval_nat_numeral)
qed

lemma sample_one_launch:
  "training_loop sample_ext 0.001 0.5 2 1 sample_world = Inr sample_after_first"
  using sample_first_launch by simp

section \<open>The rate of a run and the seeds of its samplers\<close>

lemma within_nonneg: "within_int64 c it \<Longrightarrow> 0 \<le> iter_real it"
  by (cases it) simp_all

lemma rate_drop_needs_progress:
  assumes "derive_learning_rate b p c i1 = Inr (Finite r1)"
    and "derive_learning_rate b p c i2 = Inr (Finite r2)"
    and "0 \<le> b" and "0 < c" and "0 \<le> p"
    and "within_int64 c i1" and "within_int64 c i2" and "r2 < r1"
  shows "iter_real i1 < iter_real i2"
proof (rule ccontr)
  assume "\<not> iter_real i1 < iter_real i2"
  then have le: "iter_real i2 \<le> iter_real i1" by simp
  have n2: "0 \<le> iter_real i2" using assms(7) by (rule within_nonneg)
  have "r1 = b * (1 + of_int \<lfloor>iter_real i1 / of_int c\<rfloor>) powr (- p)"
    using assms(1) derive_eq[OF assms(4) assms(6), of b p] by simp
  moreover have "r2 = b * (1 + of_int \<lfloor>iter_real i2 / of_int c\<rfloor>) powr (- p)"
    using assms(2) derive_eq[OF assms(4) assms(7), of b p] by simp
  ultimately have "r1 \<le> r2"
    using rate_mono_aux[OF n2 le assms(3) assms(4) assms(5)] by simp
  with assms(8) show False by simp
qed

lemma read_is_greatest:
  assumes "max_iteration_at fs p = Inr it" and "fs p = Some (Pickled h)" and "h \<noteq> []"
  shows "\<exists>i. it = Int64Iter i \<and> greatest_iteration h i"
proof -
  from assms(1,2) have it: "it = df_i_max h" by (simp add: present_iteration)
  from assms(3) obtain r rs where "h = r # rs" by (cases h) simp_all
  then obtain i where i: "df_i_max h = Int64Iter i" by simp
  then have "greatest_iteration h i" by (rule df_i_max_is_greatest)
  with it i show ?thesis by simp
qed

text \<open>
  Claim C2. After \<open>n\<close> iterations of the relaunch loop there are \<open>n\<close> new launches. Launch
  \<open>k\<close> reads its iteration from the file system that the first \<open>k\<close> launches left: the
  greatest iteration of the history persisted there, when there is one with a row. The
  rate of a launch is the rate derived from the iteration it read; its run takes at
  most \<open>const\<close> optimiser steps, and every one of them is handed that same rate. Between
  two launches the rate differs only if the iteration read differs, and (for
  \<open>lr_base \<ge> 0\<close>, \<open>const > 0\<close>, \<open>pow \<ge> 0\<close> and iterations within \<^verbatim>\<open>int64\<close>) a later launch
  has a smaller rate only if the iteration it read is greater.
\<close>

theorem rate_fixed_for_run:
  assumes "training_loop e lr_base pw const n w = Inr w'"
  shows "\<exists>new. launches w' = launches w @ new \<and> length new = n
     \<and> (\<forall>k < n. \<exists>wk. training_loop e lr_base pw const k w = Inr wk
            \<and> max_iteration_at (files wk) (hist_path wk) = Inr (seen_i (new ! k))
            \<and> (\<forall>h. files wk (hist_path wk) = Some (Pickled h) \<and> h \<noteq> [] \<longrightarrow>
                  (\<exists>i. seen_i (new ! k) = Int64Iter i \<and> greatest_iteration h i)))
     \<and> (\<forall>l \<in> set new.
          derive_learning_rate lr_base pw const (seen_i l) = Inr (rate l)
          \<and> length (steps l) \<le> nat const
          \<and> (\<forall>s \<in> set (steps l). step_rate s = py_of_float (rate l)))
     \<and> (\<forall>j k. j < k \<and> k < n \<and> rate (new ! k) \<noteq> rate (new ! j)
            \<longrightarrow> seen_i (new ! k) \<noteq> seen_i (new ! j))
     \<and> (0 \<le> lr_base \<and> 0 < const \<and> 0 \<le> pw \<longrightarrow>
          (\<forall>j k rj rk. j < k \<and> k < n
              \<and> within_int64 const (seen_i (new ! j)) \<and> within_int64 const (seen_i (new ! k))
              \<and> rate (new ! j) = Finite rj \<and> rate (new ! k) = Finite rk \<and> rk < rj
            \<longrightarrow> iter_real (seen_i (new ! j)) < iter_real (seen_i (new ! k))))"
proof -
  from training_loop_trace[OF assms] obtain new where
    a: "launches w' = launches w @ new" and b: "length new = n" and
    c: "\<forall>k < n. \<exists>wk. training_loop e lr_base pw const k w = Inr wk
               \<and> max_iteration_at (files wk) (hist_path wk) = Inr (seen_i (new ! k))" and
    d: "\<forall>l \<in> set new. launch_ok e lr_base pw const (exp_X w) (exp_Y w) l"
    by blast
  have der: "\<And>k. k < n \<Longrightarrow>
      derive_learning_rate lr_base pw const (seen_i (new ! k)) = Inr (rate (new ! k))"
    using b d by (simp add: launch_ok_def)
  have pers: "\<forall>k < n. \<exists>wk. training_loop e lr_base pw const k w = Inr wk
            \<and> max_iteration_at (files wk) (hist_path wk) = Inr (seen_i (new ! k))
            \<and> (\<forall>h. files wk (hist_path wk) = Some (Pickled h) \<and> h \<noteq> [] \<longrightarrow>
                  (\<exists>i. seen_i (new ! k) = Int64Iter i \<and> greatest_iteration h i))"
  proof (intro allI impI)
    fix k assume "k < n"
    with c obtain wk where t: "training_loop e lr_base pw const k w = Inr wk"
      and m: "max_iteration_at (files wk) (hist_path wk) = Inr (seen_i (new ! k))" by blast
    have "\<forall>h. files wk (hist_path wk) = Some (Pickled h) \<and> h \<noteq> [] \<longrightarrow>
                  (\<exists>i. seen_i (new ! k) = Int64Iter i \<and> greatest_iteration h i)"
      using read_is_greatest[OF m] by blast
    with t m show "\<exists>wk. training_loop e lr_base pw const k w = Inr wk
            \<and> max_iteration_at (files wk) (hist_path wk) = Inr (seen_i (new ! k))
            \<and> (\<forall>h. files wk (hist_path wk) = Some (Pickled h) \<and> h \<noteq> [] \<longrightarrow>
                  (\<exists>i. seen_i (new ! k) = Int64Iter i \<and> greatest_iteration h i))"
      by (intro exI[of _ wk] conjI)
  qed
  have each: "\<forall>l \<in> set new.
          derive_learning_rate lr_base pw const (seen_i l) = Inr (rate l)
          \<and> length (steps l) \<le> nat const
          \<and> (\<forall>s \<in> set (steps l). step_rate s = py_of_float (rate l))"
    using d by (simp add: launch_ok_def)
  have one: "\<forall>j k. j < k \<and> k < n \<and> rate (new ! k) \<noteq> rate (new ! j)
            \<longrightarrow> seen_i (new ! k) \<noteq> seen_i (new ! j)"
  proof (intro allI impI)
    fix j k
    assume h: "j < k \<and> k < n \<and> rate (new ! k) \<noteq> rate (new ! j)"
    then have "j < n" and "k < n" by simp_all
    from der[OF this(1)] der[OF this(2)] h
    show "seen_i (new ! k) \<noteq> seen_i (new ! j)" by auto
  qed
  have two: "0 \<le> lr_base \<and> 0 < const \<and> 0 \<le> pw \<longrightarrow>
          (\<forall>j k rj rk. j < k \<and> k < n
              \<and> within_int64 const (seen_i (new ! j)) \<and> within_int64 const (seen_i (new ! k))
              \<and> rate (new ! j) = Finite rj \<and> rate (new ! k) = Finite rk \<and> rk < rj
            \<longrightarrow> iter_real (seen_i (new ! j)) < iter_real (seen_i (new ! k)))"
  proof (intro allI impI)
    fix j k rj rk
    assume p: "0 \<le> lr_base \<and> 0 < const \<and> 0 \<le> pw"
    assume h: "j < k \<and> k < n
              \<and> within_int64 const (seen_i (new ! j)) \<and> within_int64 const (seen_i (new ! k))
              \<and> rate (new ! j) = Finite rj \<and> rate (new ! k) = Finite rk \<and> rk < rj"
    then have "j < n" and "k < n" by simp_all
    from der[OF this(1)] der[OF this(2)] h
    have "derive_learning_rate lr_base pw const (seen_i (new ! j)) = Inr (Finite rj)"
      and "derive_learning_rate lr_base pw const (seen_i (new ! k)) = Inr (Finite rk)"
      by simp_all
    then show "iter_real (seen_i (new ! j)) < iter_real (seen_i (new ! k))"
      using p h by (intro rate_drop_needs_progress[of lr_base pw const _ rj _ rk]) simp_all
  qed
  show ?thesis
    by (intro exI[of _ new] conjI a b pers each one two)
qed

lemma sample_rate_drops: "(0.001 * 2 powr (- 0.5) :: real) < 0.001"
proof -
  have "2 powr (- (1 / 2)) = 1 / sqrt (2::real)"
    by (simp add: powr_minus powr_half_sqrt inverse_eq_divide)
  moreover have "1 < sqrt (2::real)" by simp
  ultimately have "2 powr (- (1 / 2)) < (1::real)" by simp
  then show ?thesis by simp
qed

lemma sample_launches:
  "launches sample_after_second
     = launches sample_world @ [sample_launch_first, sample_launch_second]"
  by (simp add: sample_after_second_def sample_world_fields)

theorem rate_fixed_for_run_witness:
  "training_loop sample_ext 0.001 0.5 2 2 sample_world = Inr sample_after_second
   \<and> launches sample_after_second
       = launches sample_world @ [sample_launch_first, sample_launch_second]
   \<and> seen_i sample_launch_first = FloatIter 1
   \<and> rate sample_launch_first = Finite 0.001
   \<and> map step_rate (steps sample_launch_first) = [PyFloat 0.001, PyFloat 0.001]
   \<and> training_loop sample_ext 0.001 0.5 2 1 sample_world = Inr sample_after_first
   \<and> files sample_after_first (hist_path sample_after_first)
       = Some (Pickled [\<lparr>row_i = 1, row_t = 0\<rparr>, \<lparr>row_i = 2, row_t = 1\<rparr>])
   \<and> greatest_iteration [\<lparr>row_i = 1, row_t = 0\<rparr>, \<lparr>row_i = 2, row_t = 1\<rparr>] 2
   \<and> seen_i sample_launch_second = Int64Iter 2
   \<and> rate sample_launch_second = Finite (0.001 * 2 powr (- 0.5))
   \<and> map step_rate (steps sample_launch_second)
       = [PyFloat (0.001 * 2 powr (- 0.5)), PyFloat (0.001 * 2 powr (- 0.5))]
   \<and> within_int64 2 (FloatIter 1) \<and> within_int64 2 (Int64Iter 2)
   \<and> (0.001 * 2 powr (- 0.5) :: real) < 0.001
   \<and> iter_real (FloatIter 1) < iter_real (Int64Iter 2)
   \<and> (\<exists>new. launches sample_after_second = launches sample_world @ new \<and> length new = 2
     \<and> (\<forall>k < 2. \<exists>wk. training_loop sample_ext 0.001 0.5 2 k sample_world = Inr wk
            \<and> max_iteration_at (files wk) (hist_path wk) = Inr (seen_i (new ! k))
            \<and> (\<forall>h. files wk (hist_path wk) = Some (Pickled h) \<and> h \<noteq> [] \<longrightarrow>
                  (\<exists>i. seen_i (new ! k) = Int64Iter i \<and> greatest_iteration h i)))
     \<and> (\<forall>l \<in> set new.
          derive_learning_rate 0.001 0.5 2 (seen_i l) = Inr (rate l)
          \<and> length (steps l) \<le> nat 2
          \<and> (\<forall>s \<in> set (steps l). step_rate s = py_of_float (rate l)))
     \<and> (\<forall>j k. j < k \<and> k < 2 \<and> rate (new ! k) \<noteq> rate (new ! j)
            \<longrightarrow> seen_i (new ! k) \<noteq> seen_i (new ! j))
     \<and> ((0::real) \<le> 0.001 \<and> (0::int) < 2 \<and> (0::real) \<le> 0.5 \<longrightarrow>
          (\<forall>j k rj rk. j < k \<and> k < 2
              \<and> within_int64 2 (seen_i (new ! j)) \<and> within_int64 2 (seen_i (new ! k))
              \<and> rate (new ! j) = Finite rj \<and> rate (new ! k) = Finite rk \<and> rk < rj
            \<longrightarrow> iter_real (seen_i (new ! j)) < iter_real (seen_i (new ! k)))))"
proof (intro conjI)
  show "training_loop sample_ext 0.001 0.5 2 2 sample_world = Inr sample_after_second"
    by (rule sample_two_launches)
  show "launches sample_after_second
       = launches sample_world @ [sample_launch_first, sample_launch_second]"
    by (rule sample_launches)
  show "seen_i sample_launch_first = FloatIter 1"
    by (simp add: sample_launch_first_def)
  show "rate sample_launch_first = Finite 0.001"
    by (simp add: sample_launch_first_def)
  show "map step_rate (steps sample_launch_first) = [PyFloat 0.001, PyFloat 0.001]"
    by (simp add: sample_launch_first_def sample_steps_first_def)
  show "training_loop sample_ext 0.001 0.5 2 1 sample_world = Inr sample_after_first"
    by (rule sample_one_launch)
  show "files sample_after_first (hist_path sample_after_first)
       = Some (Pickled [\<lparr>row_i = 1, row_t = 0\<rparr>, \<lparr>row_i = 2, row_t = 1\<rparr>])"
    by (simp add: sample_after_first_fields)
  show "greatest_iteration [\<lparr>row_i = 1, row_t = 0\<rparr>, \<lparr>row_i = 2, row_t = 1\<rparr>] 2"
    by (simp add: greatest_iteration_def)
  show "seen_i sample_launch_second = Int64Iter 2"
    by (simp add: sample_launch_second_def)
  show "rate sample_launch_second = Finite (0.001 * 2 powr (- 0.5))"
    by (simp add: sample_launch_second_def)
  show "map step_rate (steps sample_launch_second)
       = [PyFloat (0.001 * 2 powr (- 0.5)), PyFloat (0.001 * 2 powr (- 0.5))]"
    by (simp add: sample_launch_second_def sample_steps_second_def)
  show "within_int64 2 (FloatIter 1)" by simp
  show "within_int64 2 (Int64Iter 2)" by simp
  show "(0.001 * 2 powr (- 0.5) :: real) < 0.001" by (rule sample_rate_drops)
  show "iter_real (FloatIter 1) < iter_real (Int64Iter 2)" by simp
  show "\<exists>new. launches sample_after_second = launches sample_world @ new \<and> length new = 2
     \<and> (\<forall>k < 2. \<exists>wk. training_loop sample_ext 0.001 0.5 2 k sample_world = Inr wk
            \<and> max_iteration_at (files wk) (hist_path wk) = Inr (seen_i (new ! k))
            \<and> (\<forall>h. files wk (hist_path wk) = Some (Pickled h) \<and> h \<noteq> [] \<longrightarrow>
                  (\<exists>i. seen_i (new ! k) = Int64Iter i \<and> greatest_iteration h i)))
     \<and> (\<forall>l \<in> set new.
          derive_learning_rate 0.001 0.5 2 (seen_i l) = Inr (rate l)
          \<and> length (steps l) \<le> nat 2
          \<and> (\<forall>s \<in> set (steps l). step_rate s = py_of_float (rate l)))
     \<and> (\<forall>j k. j < k \<and> k < 2 \<and> rate (new ! k) \<noteq> rate (new ! j)
            \<longrightarrow> seen_i (new ! k) \<noteq> seen_i (new ! j))
     \<and> ((0::real) \<le> 0.001 \<and> (0::int) < 2 \<and> (0::real) \<le> 0.5 \<longrightarrow>
          (\<forall>j k rj rk. j < k \<and> k < 2
              \<and> within_int64 2 (seen_i (new ! j)) \<and> within_int64 2 (seen_i (new ! k))
              \<and> rate (new ! j) = Finite rj \<and> rate (new ! k) = Finite rk \<and> rk < rj
            \<longrightarrow> iter_real (seen_i (new ! j)) < iter_real (seen_i (new ! k))))"
    by (rule rate_fixed_for_run[OF sample_two_launches])
qed

text \<open>
  Claim C10. Every launch of the relaunch loop draws one seed from the global generator
  (lines 120 to 122) and starts its run with the feature sampler and the label sampler
  each on a new generator with that seed. With as many label rows as feature rows, the
  two samplers then draw the same index list at every optimiser step of the run, and the
  minibatch handed to the optimiser pairs, position by position, the feature row and the
  label row at the same drawn index.
\<close>

theorem samplers_reseeded_together:
  assumes "training_loop e lr_base pw const n w = Inr w'"
    and "length (exp_X w) = length (exp_Y w)"
  shows "\<exists>new. launches w' = launches w @ new \<and> length new = n
     \<and> (\<forall>l \<in> set new.
          fst (np_randint e (drawn_from l)) = seed l
          \<and> run_X_rng l = RandomState (seed l) 0
          \<and> run_Y_rng l = RandomState (seed l) 0
          \<and> (\<forall>s \<in> set (steps l).
                step_iy s = step_ix s
                \<and> length (step_bx s) = length (step_ix s)
                \<and> length (step_by s) = length (step_ix s)
                \<and> (\<forall>j < length (step_ix s).
                      step_ix s ! j < length (exp_X w)
                      \<and> step_bx s ! j = exp_X w ! (step_ix s ! j)
                      \<and> step_by s ! j = exp_Y w ! (step_ix s ! j))))"
proof -
  from training_loop_trace[OF assms(1)] obtain new where
    a: "launches w' = launches w @ new" and b: "length new = n" and
    d: "\<forall>l \<in> set new. launch_ok e lr_base pw const (exp_X w) (exp_Y w) l"
    by blast
  have each: "\<forall>l \<in> set new.
          fst (np_randint e (drawn_from l)) = seed l
          \<and> run_X_rng l = RandomState (seed l) 0
          \<and> run_Y_rng l = RandomState (seed l) 0
          \<and> (\<forall>s \<in> set (steps l).
                step_iy s = step_ix s
                \<and> length (step_bx s) = length (step_ix s)
                \<and> length (step_by s) = length (step_ix s)
                \<and> (\<forall>j < length (step_ix s).
                      step_ix s ! j < length (exp_X w)
                      \<and> step_bx s ! j = exp_X w ! (step_ix s ! j)
                      \<and> step_by s ! j = exp_Y w ! (step_ix s ! j)))"
  proof (intro ballI)
    fix l assume "l \<in> set new"
    with d have ok: "launch_ok e lr_base pw const (exp_X w) (exp_Y w) l" by blast
    have steps: "\<forall>s \<in> set (steps l).
                step_iy s = step_ix s
                \<and> length (step_bx s) = length (step_ix s)
                \<and> length (step_by s) = length (step_ix s)
                \<and> (\<forall>j < length (step_ix s).
                      step_ix s ! j < length (exp_X w)
                      \<and> step_bx s ! j = exp_X w ! (step_ix s ! j)
                      \<and> step_by s ! j = exp_Y w ! (step_ix s ! j))"
    proof (intro ballI)
      fix s assume s: "s \<in> set (steps l)"
      from ok s assms(2) have e: "step_ix s = step_iy s"
        by (simp add: launch_ok_def)
      from ok s have x: "rows_at (exp_X w) (step_ix s) = Inr (step_bx s)"
        and y: "rows_at (exp_Y w) (step_iy s) = Inr (step_by s)"
        by (simp_all add: launch_ok_def)
      from rows_at_rows[OF x] rows_at_rows[OF y] e
      show "step_iy s = step_ix s
                \<and> length (step_bx s) = length (step_ix s)
                \<and> length (step_by s) = length (step_ix s)
                \<and> (\<forall>j < length (step_ix s).
                      step_ix s ! j < length (exp_X w)
                      \<and> step_bx s ! j = exp_X w ! (step_ix s ! j)
                      \<and> step_by s ! j = exp_Y w ! (step_ix s ! j))"
        by simp
    qed
    from ok steps show "fst (np_randint e (drawn_from l)) = seed l
          \<and> run_X_rng l = RandomState (seed l) 0
          \<and> run_Y_rng l = RandomState (seed l) 0
          \<and> (\<forall>s \<in> set (steps l).
                step_iy s = step_ix s
                \<and> length (step_bx s) = length (step_ix s)
                \<and> length (step_by s) = length (step_ix s)
                \<and> (\<forall>j < length (step_ix s).
                      step_ix s ! j < length (exp_X w)
                      \<and> step_bx s ! j = exp_X w ! (step_ix s ! j)
                      \<and> step_by s ! j = exp_Y w ! (step_ix s ! j)))"
      by (simp add: launch_ok_def)
  qed
  show ?thesis
    by (intro exI[of _ new] conjI a b each)
qed

lemma sample_unseeded_draw:
  "draw_minibatch sample_ext sample_world
      (sample_model_at 11 0 []\<lparr>svgp_Y_rng := RandomState 12 0\<rparr>)
     = Inr (([2, 0], [0, 1]), ([[2], [0]], [[0], [1]]), (RandomState 11 1, RandomState 12 1))"
  by (simp add: draw_minibatch_def sample_model_at_def sample_ext_fields sample_world_fields
      rows_at_def minibatch_def)

theorem samplers_reseeded_together_witness:
  "training_loop sample_ext 0.001 0.5 2 2 sample_world = Inr sample_after_second
   \<and> length (exp_X sample_world) = length (exp_Y sample_world)
   \<and> launches sample_after_second
       = launches sample_world @ [sample_launch_first, sample_launch_second]
   \<and> np_randint sample_ext (drawn_from sample_launch_first) = (47, RandomState 5 2)
   \<and> seed sample_launch_first = 47
   \<and> map (\<lambda>s. (step_ix s, step_iy s)) (steps sample_launch_first)
       = [([2, 0], [2, 0]), ([0, 1], [0, 1])]
   \<and> map (\<lambda>s. (step_bx s, step_by s)) (steps sample_launch_first)
       = [([[2], [0]], [[0], [0]]), ([[0], [1]], [[0], [1]])]
   \<and> np_randint sample_ext (drawn_from sample_launch_second) = (49, RandomState 5 4)
   \<and> seed sample_launch_second = 49
   \<and> map (\<lambda>s. (step_ix s, step_iy s)) (steps sample_launch_second)
       = [([1, 2], [1, 2]), ([2, 0], [2, 0])]
   \<and> map (\<lambda>s. (step_bx s, step_by s)) (steps sample_launch_second)
       = [([[1], [2]], [[1], [0]]), ([[2], [0]], [[0], [0]])]
   \<and> draw_minibatch sample_ext sample_world
        (sample_model_at 11 0 []\<lparr>svgp_Y_rng := RandomState 12 0\<rparr>)
       = Inr (([2, 0], [0, 1]), ([[2], [0]], [[0], [1]]), (RandomState 11 1, RandomState 12 1))
   \<and> (\<exists>new. launches sample_after_second = launches sample_world @ new \<and> length new = 2
     \<and> (\<forall>l \<in> set new.
          fst (np_randint sample_ext (drawn_from l)) = seed l
          \<and> run_X_rng l = RandomState (seed l) 0
          \<and> run_Y_rng l = RandomState (seed l) 0
          \<and> (\<forall>s \<in> set (steps l).
                step_iy s = step_ix s
                \<and> length (step_bx s) = length (step_ix s)
                \<and> length (step_by s) = length (step_ix s)
                \<and> (\<forall>j < length (step_ix s).
                      step_ix s ! j < length (exp_X sample_world)
                      \<and> step_bx s ! j = exp_X sample_world ! (step_ix s ! j)
                      \<and> step_by s ! j = exp_Y sample_world ! (step_ix s ! j)))))"
proof (intro conjI)
  show "training_loop sample_ext 0.001 0.5 2 2 sample_world = Inr sample_after_second"
    by (rule sample_two_launches)
  show len: "length (exp_X sample_world) = length (exp_Y sample_world)"
    by (simp add: sample_world_fields)
  show "launches sample_after_second
       = launches sample_world @ [sample_launch_first, sample_launch_second]"
    by (rule sample_launches)
  show "np_randint sample_ext (drawn_from sample_launch_first) = (47, RandomState 5 2)"
    by (simp add: sample_launch_first_def sample_ext_fields)
  show "seed sample_launch_first = 47" by (simp add: sample_launch_first_def)
  show "map (\<lambda>s. (step_ix s, step_iy s)) (steps sample_launch_first)
       = [([2, 0], [2, 0]), ([0, 1], [0, 1])]"
    by (simp add: sample_launch_first_def sample_steps_first_def)
  show "map (\<lambda>s. (step_bx s, step_by s)) (steps sample_launch_first)
       = [([[2], [0]], [[0], [0]]), ([[0], [1]], [[0], [1]])]"
    by (simp add: sample_launch_first_def sample_steps_first_def)
  show "np_randint sample_ext (drawn_from sample_launch_second) = (49, RandomState 5 4)"
    by (simp add: sample_launch_second_def sample_ext_fields)
  show "seed sample_launch_second = 49" by (simp add: sample_launch_second_def)
  show "map (\<lambda>s. (step_ix s, step_iy s)) (steps sample_launch_second)
       = [([1, 2], [1, 2]), ([2, 0], [2, 0])]"
    by (simp add: sample_launch_second_def sample_steps_second_def)
  show "map (\<lambda>s. (step_bx s, step_by s)) (steps sample_launch_second)
       = [([[1], [2]], [[1], [0]]), ([[2], [0]], [[0], [0]])]"
    by (simp add: sample_launch_second_def sample_steps_second_def)
  show "draw_minibatch sample_ext sample_world
        (sample_model_at 11 0 []\<lparr>svgp_Y_rng := RandomState 12 0\<rparr>)
       = Inr (([2, 0], [0, 1]), ([[2], [0]], [[0], [1]]), (RandomState 11 1, RandomState 12 1))"
    by (rule sample_unseeded_draw)
  show "\<exists>new. launches sample_after_second = launches sample_world @ new \<and> length new = 2
     \<and> (\<forall>l \<in> set new.
          fst (np_randint sample_ext (drawn_from l)) = seed l
          \<and> run_X_rng l = RandomState (seed l) 0
          \<and> run_Y_rng l = RandomState (seed l) 0
          \<and> (\<forall>s \<in> set (steps l).
                step_iy s = step_ix s
                \<and> length (step_bx s) = length (step_ix s)
                \<and> length (step_by s) = length (step_ix s)
                \<and> (\<forall>j < length (step_ix s).
                      step_ix s ! j < length (exp_X sample_world)
                      \<and> step_bx s ! j = exp_X sample_world ! (step_ix s ! j)
                      \<and> step_by s ! j = exp_Y sample_world ! (step_ix s ! j))))"
    by (rule samplers_reseeded_together[OF sample_two_launches len])
qed

section \<open>The benchmarks\<close>











end
